theory Spec2Isabelle
  imports
    Main
    "HOL-Library.Word"
    "HOL-Library.Multiset"
    "HOL-Library.List_Lexorder"
    "HOL-Library.Char_ord"
    "HOL-Library.Sublist"
begin

section \<open>Formatting verbs of Go's fmt and strconv\<close>

text \<open>
  \<^verbatim>\<open>fmt.Sprintf("%d", n)\<close> and \<^verbatim>\<open>strconv.Itoa(n)\<close> print a decimal numeral, with a
  leading minus sign for a negative number; \<^verbatim>\<open>fmt.Sprintf("%x", sum)\<close> prints every
  byte of a byte array as two lower-case hexadecimal digits.
\<close>

definition digit_char :: "nat \<Rightarrow> char" where
  "digit_char d = ''0123456789abcdef'' ! d"

fun nat_digits :: "nat \<Rightarrow> string" where
  "nat_digits n =
     (if n < 10 then [digit_char n] else nat_digits (n div 10) @ [digit_char (n mod 10)])"

declare nat_digits.simps [simp del]

definition fmt_d :: "int \<Rightarrow> string" where
  "fmt_d i = (if i < 0 then CHR ''-'' # nat_digits (nat (- i)) else nat_digits (nat i))"

definition hex_byte :: "8 word \<Rightarrow> string" where
  "hex_byte b = [digit_char (unat b div 16), digit_char (unat b mod 16)]"

definition fmt_x :: "8 word list \<Rightarrow> string" where
  "fmt_x bs = concat (map hex_byte bs)"

text \<open>\<^verbatim>\<open>sha1.Size\<close> is 20: \<^verbatim>\<open>sha1.Sum\<close> returns a \<^verbatim>\<open>[20]byte\<close>.\<close>

definition sha1_Size :: nat where
  "sha1_Size = 20"

typedef sha1_sum = "{bs :: 8 word list. length bs = 20}"
  by (rule exI [of _ "replicate 20 0"]) simp

section \<open>The service model (pilot/model, pilot/proxy, istio.io/api)\<close>

text \<open>
  These types are declared outside \<^verbatim>\<open>src/\<close>; they are written here with the fields
  and enumeration values that \<^verbatim>\<open>config.go\<close> and \<^verbatim>\<open>mock/service.go\<close> use.
  \<^verbatim>\<open>model.Protocol\<close> is a string type in Go: \<open>ProtocolOther\<close> stands for every value
  that is none of the declared constants.
\<close>

datatype Protocol =
    ProtocolGRPC | ProtocolHTTPS | ProtocolHTTP2 | ProtocolHTTP
  | ProtocolTCP | ProtocolUDP | ProtocolMongo | ProtocolRedis
  | ProtocolOther string

datatype AuthenticationPolicy =
  AuthenticationPolicy_NONE | AuthenticationPolicy_MUTUAL_TLS | AuthenticationPolicy_INHERIT

datatype MeshConfig_AuthPolicy = MeshConfig_NONE | MeshConfig_MUTUAL_TLS

datatype NodeType = Sidecar | Ingress | Router

record Duration =
  Seconds :: int
  Nanos :: int

record MeshConfig =
  AuthPolicy :: MeshConfig_AuthPolicy
  ConnectTimeout :: Duration
  RdsRefreshDelay :: Duration
  ProxyListenPort :: int
  ProxyHttpPort :: int
  MixerAddress :: string
  AccessLogFile :: string
  EnableTracing :: bool
  DisablePolicyChecks :: bool

record Node =
  Node_Type :: NodeType
  IPAddress :: string
  ID :: string
  Domain :: string

record Port =
  Port_Name :: string
  Port_Port :: int
  Port_Protocol :: Protocol
  Port_AuthenticationPolicy :: AuthenticationPolicy

record Service =
  Hostname :: string
  Service_Address :: string
  ExternalName :: string
  Service_Ports :: "Port list"
  LoadBalancingDisabled :: bool

record NetworkEndpoint =
  Endpoint_Address :: string
  Endpoint_Port :: int
  ServicePort :: Port

record ServiceInstance =
  Endpoint :: NetworkEndpoint
  Instance_Service :: Service
  Labels :: "(string \<times> string) list"

record EgressRule_Port =
  EgressPort_Port :: int
  EgressPort_Protocol :: string

record EgressRule =
  Destination_Service :: string
  EgressRule_Ports :: "EgressRule_Port list"

text \<open>
  Modelled from the spec: \<^verbatim>\<open>Service.External\<close> is declared in pilot/model, which is
  not under \<^verbatim>\<open>src/\<close>; section 3 says "External() iff ExternalName non-empty".
\<close>

definition External :: "Service \<Rightarrow> bool" where
  "External service = (ExternalName service \<noteq> [])"

section \<open>The proxy configuration schema (resources.go)\<close>

text \<open>
  Modelled from the spec: the structs and string constants of \<^verbatim>\<open>resources.go\<close> are
  not under \<^verbatim>\<open>src/\<close>. The records carry the fields that \<^verbatim>\<open>config.go\<close> reads or
  writes; an interface-typed \<^verbatim>\<open>Config\<close> field is the tagged variant of section 9
  ("Polymorphism over filter types"). The two addresses are those of section 4.4; the
  other string constants carry names of the proxy's v1 configuration format (section 6),
  and no theorem below depends on the spelling of any of them.
\<close>

definition WildcardAddress :: string where "WildcardAddress = ''0.0.0.0''"
definition LocalhostAddress :: string where "LocalhostAddress = ''127.0.0.1''"
definition VirtualListenerName :: string where "VirtualListenerName = ''virtual''"
definition RDSName :: string where "RDSName = ''rds''"
definition RDSAll :: string where "RDSAll = ''http_proxy''"
definition HTTPConnectionManager :: string where "HTTPConnectionManager = ''http_connection_manager''"
definition TCPProxyFilter :: string where "TCPProxyFilter = ''tcp_proxy''"
definition CORSFilter :: string where "CORSFilter = ''cors''"
definition MongoProxyFilter :: string where "MongoProxyFilter = ''mongo_proxy''"
definition RedisProxyFilter :: string where "RedisProxyFilter = ''redis_proxy''"
definition MixerFilter :: string where "MixerFilter = ''mixer''"
definition EgressTraceOperation :: string where "EgressTraceOperation = ''egress''"
definition IngressTraceOperation :: string where "IngressTraceOperation = ''ingress''"
definition ClusterFeatureHTTP2 :: string where "ClusterFeatureHTTP2 = ''http2''"
definition router :: string where "router = ''router''"
definition auto :: string where "auto = ''auto''"
definition decoder :: string where "decoder = ''decoder''"
definition read :: string where "read = ''read''"
definition both :: string where "both = ''both''"

text \<open>
  \<^verbatim>\<open>RedisDefaultOpTimeout / time.Millisecond\<close>: thirty seconds, in milliseconds.
\<close>

definition RedisDefaultOpTimeout_ms :: int where "RedisDefaultOpTimeout_ms = 30000"

datatype Cluster_SSLContext = SSLContextExternal

record Cluster =
  Cluster_Name :: string
  ServiceName :: string
  Cluster_SSLContext :: "Cluster_SSLContext option"
  Features :: string
  Cluster_hostname :: string
  Cluster_port :: "Port option"

record SSLContext =
  CertChainFile :: string
  PrivateKeyFile :: string
  CaCertFile :: string

record HTTPRoute =
  Path :: string
  Prefix :: string
  HTTPRoute_Cluster :: string
  OpaqueConfig :: "(string \<times> string) list"
  HTTPRoute_clusters :: "Cluster list"

record VirtualHost =
  VirtualHost_Name :: string
  Domains :: "string list"
  VirtualHost_Routes :: "HTTPRoute list"

record HTTPRouteConfig =
  VirtualHosts :: "VirtualHost list"

text \<open>
  \<^verbatim>\<open>HTTPRouteConfigs\<close> is a Go map from port to route config. It is kept as an
  association list with distinct keys; a \<^verbatim>\<open>range\<close> over it visits the entries in
  list order (Go leaves the order open, and every list built from such a loop is sorted
  by \<^verbatim>\<open>normalize\<close> before it is returned).
\<close>

type_synonym HTTPRouteConfigs = "(int \<times> HTTPRouteConfig) list"

record TCPRoute =
  TCPRoute_Cluster :: string
  DestinationIPList :: "string list"
  clusterRef :: Cluster

record TCPRouteConfig =
  TCP_Routes :: "TCPRoute list"

record TCPProxyFilterConfig =
  TCPProxy_StatPrefix :: string
  TCPProxy_RouteConfig :: TCPRouteConfig

record MongoProxyFilterConfig =
  Mongo_StatPrefix :: string

record RedisConnPool =
  OperationTimeoutMS :: int

record RedisProxyFilterConfig =
  ClusterName :: string
  Redis_StatPrefix :: string
  ConnPool :: RedisConnPool

datatype ('mx, 'ff) HTTPFilter_Config =
    FilterRouterConfig
  | CORSFilterConfig
  | HTTP_FilterMixerConfig 'mx
  | FilterFaultConfig 'ff

record ('mx, 'ff) HTTPFilter =
  HTTPFilter_Type :: string
  HTTPFilter_Name :: string
  HTTPFilter_Config :: "('mx, 'ff) HTTPFilter_Config"

record AccessLog =
  AccessLog_Path :: string

record HTTPFilterTraceConfig =
  OperationName :: string

record RDS =
  RDS_Cluster :: string
  RouteConfigName :: string
  RefreshDelayMs :: int

record ('mx, 'ff) HTTPFilterConfig =
  CodecType :: string
  UseRemoteAddress :: bool
  HTTP_StatPrefix :: string
  HTTP_Filters :: "('mx, 'ff) HTTPFilter list"
  HTTP_AccessLog :: "AccessLog list"
  GenerateRequestID :: bool
  Tracing :: "HTTPFilterTraceConfig option"
  HTTP_RDS :: "RDS option"
  HTTP_RouteConfig :: "HTTPRouteConfig option"

datatype ('mx, 'ff) NetworkFilter_Config =
    HTTPFilterConfig_of "('mx, 'ff) HTTPFilterConfig"
  | TCPProxyFilterConfig_of TCPProxyFilterConfig
  | MongoProxyFilterConfig_of MongoProxyFilterConfig
  | RedisProxyFilterConfig_of RedisProxyFilterConfig
  | FilterMixerConfig_of 'mx

record ('mx, 'ff) NetworkFilter =
  Filter_Type :: string
  Filter_Name :: string
  Filter_Config :: "('mx, 'ff) NetworkFilter_Config"

record ('mx, 'ff) Listener =
  Listener_Address :: string
  Listener_Name :: string
  Listener_Filters :: "('mx, 'ff) NetworkFilter list"
  Listener_SSLContext :: "SSLContext option"
  BindToPort :: bool
  UseOriginalDst :: bool

section \<open>Interfaces and functions that are not under src/\<close>

text \<open>
  \<^verbatim>\<open>model.IstioConfigStore\<close> is an interface; the record holds the three methods that
  \<^verbatim>\<open>config.go\<close> calls. A route rule (\<^verbatim>\<open>model.Config\<close>) is the type variable \<open>'rule\<close>.
\<close>

record 'rule IstioConfigStore =
  RouteRules :: "ServiceInstance list \<Rightarrow> string \<Rightarrow> 'rule list"
  RouteRulesByDestination :: "ServiceInstance list \<Rightarrow> 'rule list"
  EgressRules :: "(string \<times> EgressRule) list"

text \<open>
  \<^verbatim>\<open>model.ServiceDiscovery\<close> is an interface as well. A Go call returns a value and an
  error side by side, so a method's result is the pair of both (\<open>None\<close> is \<^verbatim>\<open>nil\<close>).
  \<^verbatim>\<open>HostInstances\<close> takes the set of addresses that Go passes as a
  \<^verbatim>\<open>map[string]bool\<close>.
\<close>

datatype error = Error string

record ServiceDiscovery =
  Services :: "Service list \<times> error option"
  HostInstances :: "string set \<Rightarrow> ServiceInstance list \<times> error option"
  ManagementPorts :: "string \<Rightarrow> Port list"

record 'rule Environment =
  Env_ServiceDiscovery :: ServiceDiscovery
  Env_ServiceAccounts :: "string \<Rightarrow> string list \<Rightarrow> string list"
  Env_IstioConfigStore :: "'rule IstioConfigStore"
  Mesh :: MeshConfig
  MixerSAN :: "string list"

text \<open>
  The functions that \<^verbatim>\<open>config.go\<close> calls and that are defined in other files of the
  package (\<^verbatim>\<open>route.go\<close>, \<^verbatim>\<open>resources.go\<close>, \<^verbatim>\<open>policy.go\<close>, \<^verbatim>\<open>mixer.go\<close>,
  \<^verbatim>\<open>fault.go\<close>, \<^verbatim>\<open>ingress.go\<close>), in pilot/model or in Go's standard library are
  parameters: every function of \<^verbatim>\<open>config.go\<close> below takes the record \<open>h\<close> of them, and
  every theorem holds for all of them. \<open>'mx\<close> is the Mixer filter's configuration
  (\<^verbatim>\<open>FilterMixerConfig\<close>), \<open>'ff\<close> a fault filter's. A function that changes its
  argument through a pointer returns the changed value (\<open>SortRouteRules\<close>,
  \<open>applyClusterPolicy\<close>); \<open>RejectConflictingEgressRules\<close> returns the rules it accepts
  (the errors are only logged); \<open>Protocol_of_upper s\<close> is the conversion
  \<^verbatim>\<open>model.Protocol(strings.ToUpper(s))\<close> and \<open>Protocol_String\<close> what \<^verbatim>\<open>%v\<close> prints
  for a protocol; \<open>HTTPRouteConfigs_clusters\<close> and \<open>HTTPRouteConfig_clusters\<close> are the
  methods \<^verbatim>\<open>clusters()\<close> of the two types; \<open>MaxClusterNameLength\<close> and
  \<open>AuthCertsPath\<close> are constants, and \<open>sha1_Sum\<close> is \<^verbatim>\<open>crypto/sha1.Sum\<close>.
\<close>

record ('rule, 'mx, 'ff) helpers =
  buildHTTPRoute :: "'rule \<Rightarrow> Service \<Rightarrow> Port \<Rightarrow> HTTPRoute"
  CatchAll :: "HTTPRoute \<Rightarrow> bool"
  buildDefaultRoute :: "Cluster \<Rightarrow> HTTPRoute"
  buildInboundRoute :: "'rule \<Rightarrow> Cluster \<Rightarrow> HTTPRoute option"
  buildTCPRoute :: "Cluster \<Rightarrow> string list \<Rightarrow> TCPRoute"
  buildVirtualHost :: "Service \<Rightarrow> Port \<Rightarrow> string list \<Rightarrow> HTTPRoute list \<Rightarrow> VirtualHost"
  SortRouteRules :: "'rule list \<Rightarrow> 'rule list"
  buildFaultFilters :: "HTTPRouteConfig option \<Rightarrow> ('mx, 'ff) HTTPFilter list"
  buildMixerOpaqueConfig :: "bool \<Rightarrow> bool \<Rightarrow> string \<Rightarrow> (string \<times> string) list"
  mixerHTTPRouteConfig :: "Node \<Rightarrow> ServiceInstance list \<Rightarrow> 'rule IstioConfigStore \<Rightarrow> 'mx"
  mixerTCPConfig :: "Node \<Rightarrow> bool \<Rightarrow> ServiceInstance \<Rightarrow> 'mx"
  HTTPRouteConfigs_normalize :: "HTTPRouteConfigs \<Rightarrow> HTTPRouteConfigs"
  HTTPRouteConfigs_clusters :: "HTTPRouteConfigs \<Rightarrow> Cluster list"
  HTTPRouteConfig_clusters :: "HTTPRouteConfig \<Rightarrow> Cluster list"
  protoDurationToMS :: "Duration \<Rightarrow> int"
  buildOutboundCluster :: "string \<Rightarrow> Port \<Rightarrow> (string \<times> string) list option \<Rightarrow> Cluster"
  buildInboundCluster :: "int \<Rightarrow> Protocol \<Rightarrow> Duration \<Rightarrow> Cluster"
  buildOriginalDSTCluster :: "string \<Rightarrow> Duration \<Rightarrow> Cluster"
  Clusters_normalize :: "Cluster list \<Rightarrow> Cluster list"
  buildListenerSSLContext :: "string \<Rightarrow> SSLContext"
  AuthCertsPath :: string
  sha1_Sum :: "string \<Rightarrow> sha1_sum"
  MaxClusterNameLength :: nat
  Service_Key :: "Service \<Rightarrow> Port \<Rightarrow> (string \<times> string) list option \<Rightarrow> string"
  RejectConflictingEgressRules :: "(string \<times> EgressRule) list \<Rightarrow> EgressRule list"
  ConvertCaseInsensitiveStringToProtocol :: "string \<Rightarrow> Protocol"
  Protocol_of_upper :: "string \<Rightarrow> Protocol"
  IsEgressRulesSupportedTCPProtocol :: "Protocol \<Rightarrow> bool"
  Protocol_String :: "Protocol \<Rightarrow> string"
  strings_Split :: "string \<Rightarrow> string \<Rightarrow> string list"
  buildIngressListeners ::
    "MeshConfig \<Rightarrow> ServiceInstance list \<Rightarrow> ServiceDiscovery \<Rightarrow> 'rule IstioConfigStore \<Rightarrow> Node
      \<Rightarrow> ('mx, 'ff) Listener list"
  buildIngressRoutes ::
    "MeshConfig \<Rightarrow> ServiceInstance list \<Rightarrow> ServiceDiscovery \<Rightarrow> 'rule IstioConfigStore
      \<Rightarrow> HTTPRouteConfigs"
  applyClusterPolicy ::
    "Cluster \<Rightarrow> ServiceInstance list \<Rightarrow> 'rule IstioConfigStore \<Rightarrow> MeshConfig
      \<Rightarrow> (string \<Rightarrow> string list \<Rightarrow> string list) \<Rightarrow> Cluster"
  buildMixerCluster :: "MeshConfig \<Rightarrow> Node \<Rightarrow> string list \<Rightarrow> Cluster"

text \<open>
  Modelled from the spec: the methods of \<^verbatim>\<open>Listeners\<close> and \<^verbatim>\<open>HTTPRouteConfigs\<close> are
  defined in \<^verbatim>\<open>resources.go\<close>, which is not under \<^verbatim>\<open>src/\<close>.
  \<^verbatim>\<open>GetByAddress\<close> returns the first listener at an address, or \<^verbatim>\<open>nil\<close> (section
  4.4: a management listener is suppressed when its address collides);
  \<^verbatim>\<open>Listeners.normalize\<close> sorts the listeners by address and port (section 4.3,
  "Normalization"): by the \<^verbatim>\<open>Address\<close> string, which renders both;
  \<^verbatim>\<open>EnsurePort\<close> returns the route config of a port of the map, which it creates
  empty when the port has none (section 4.3: "a map Port \<rightarrow> HTTPRouteConfig").
\<close>

definition GetByAddress :: "('mx, 'ff) Listener list \<Rightarrow> string \<Rightarrow> ('mx, 'ff) Listener option" where
  "GetByAddress listeners addr = find (\<lambda>listener. Listener_Address listener = addr) listeners"

definition Listeners_normalize :: "('mx, 'ff) Listener list \<Rightarrow> ('mx, 'ff) Listener list" where
  "Listeners_normalize listeners = sort_key Listener_Address listeners"

definition EnsurePort :: "HTTPRouteConfigs \<Rightarrow> int \<Rightarrow> HTTPRouteConfigs" where
  "EnsurePort routes port =
     (if port \<in> fst ` set routes then routes else routes @ [(port, \<lparr>VirtualHosts = []\<rparr>)])"

text \<open>
  \<^verbatim>\<open>http := httpConfigs.EnsurePort(p); http.VirtualHosts = append(http.VirtualHosts, host)\<close>
  writes through the pointer that the map holds.
\<close>

definition appendVirtualHost :: "HTTPRouteConfigs \<Rightarrow> int \<Rightarrow> VirtualHost \<Rightarrow> HTTPRouteConfigs" where
  "appendVirtualHost routes port host =
     map (\<lambda>(p, http). if p = port then (p, http\<lparr>VirtualHosts := VirtualHosts http @ [host]\<rparr>)
                       else (p, http))
       (EnsurePort routes port)"

section \<open>config.go\<close>

subsection \<open>Listeners\<close>

text \<open>
  \<^verbatim>\<open>buildHTTPListener\<close>: the fault filters, then the router filter appended, then the
  CORS filter put in front, then (with a Mixer address) the Mixer filter put in front of
  that. \<open>routeConfig\<close> is a pointer that the HTTP proxy port passes as \<^verbatim>\<open>nil\<close>.
\<close>

definition buildHTTPListener ::
  "('rule, 'mx, 'ff) helpers \<Rightarrow> MeshConfig \<Rightarrow> Node \<Rightarrow> ServiceInstance list
    \<Rightarrow> HTTPRouteConfig option \<Rightarrow> string \<Rightarrow> int \<Rightarrow> string \<Rightarrow> bool \<Rightarrow> string
    \<Rightarrow> 'rule IstioConfigStore \<Rightarrow> ('mx, 'ff) Listener" where
  "buildHTTPListener h mesh node instances routeConfig ip port rds useRemoteAddress direction store =
     (let filters = buildFaultFilters h routeConfig;
          filters = filters @
            [\<lparr>HTTPFilter_Type = decoder, HTTPFilter_Name = router,
              HTTPFilter_Config = FilterRouterConfig\<rparr>];
          filter = \<lparr>HTTPFilter_Type = [], HTTPFilter_Name = CORSFilter,
                    HTTPFilter_Config = CORSFilterConfig\<rparr>;
          filters = [filter] @ filters;
          filters =
            (if MixerAddress mesh \<noteq> [] then
               (let mixerConfig = mixerHTTPRouteConfig h node instances store;
                    filter = \<lparr>HTTPFilter_Type = decoder, HTTPFilter_Name = MixerFilter,
                              HTTPFilter_Config = HTTP_FilterMixerConfig mixerConfig\<rparr>
                in [filter] @ filters)
             else filters);
          config = \<lparr>CodecType = auto, UseRemoteAddress = useRemoteAddress,
                    HTTP_StatPrefix = ''http'', HTTP_Filters = filters, HTTP_AccessLog = [],
                    GenerateRequestID = False, Tracing = None, HTTP_RDS = None,
                    HTTP_RouteConfig = None\<rparr>;
          config =
            (if AccessLogFile mesh \<noteq> [] then
               config\<lparr>HTTP_AccessLog := [\<lparr>AccessLog_Path = AccessLogFile mesh\<rparr>]\<rparr>
             else config);
          config =
            (if EnableTracing mesh then
               config\<lparr>GenerateRequestID := True,
                      Tracing := Some \<lparr>OperationName = direction\<rparr>\<rparr>
             else config);
          config =
            (if rds \<noteq> [] then
               config\<lparr>HTTP_RDS := Some \<lparr>RDS_Cluster = RDSName, RouteConfigName = rds,
                 RefreshDelayMs = protoDurationToMS h (RdsRefreshDelay mesh)\<rparr>\<rparr>
             else config\<lparr>HTTP_RouteConfig := routeConfig\<rparr>)
      in \<lparr>Listener_Address = ''tcp://'' @ ip @ '':'' @ fmt_d port,
          Listener_Name = ''http_'' @ ip @ ''_'' @ fmt_d port,
          Listener_Filters =
            [\<lparr>Filter_Type = read, Filter_Name = HTTPConnectionManager,
              Filter_Config = HTTPFilterConfig_of config\<rparr>],
          Listener_SSLContext = None,
          BindToPort = True,
          UseOriginalDst = False\<rparr>)"

text \<open>
  \<^verbatim>\<open>consolidateAuthPolicy\<close>. The \<^verbatim>\<open>default\<close> arm of the Go switch panics; its comment
  says that \<^verbatim>\<open>mesh.AuthPolicy\<close> has no other value, and the enumeration here has
  exactly the two.
\<close>

definition consolidateAuthPolicy :: "MeshConfig \<Rightarrow> AuthenticationPolicy \<Rightarrow> AuthenticationPolicy" where
  "consolidateAuthPolicy mesh serviceAuthPolicy =
     (if serviceAuthPolicy \<noteq> AuthenticationPolicy_INHERIT then serviceAuthPolicy
      else (case AuthPolicy mesh of
              MeshConfig_MUTUAL_TLS \<Rightarrow> AuthenticationPolicy_MUTUAL_TLS
            | MeshConfig_NONE \<Rightarrow> AuthenticationPolicy_NONE))"

definition mayApplyInboundAuth ::
  "('rule, 'mx, 'ff) helpers \<Rightarrow> ('mx, 'ff) Listener \<Rightarrow> MeshConfig \<Rightarrow> AuthenticationPolicy
    \<Rightarrow> ('mx, 'ff) Listener" where
  "mayApplyInboundAuth h listener mesh serviceAuthPolicy =
     (if consolidateAuthPolicy mesh serviceAuthPolicy = AuthenticationPolicy_MUTUAL_TLS then
        listener\<lparr>Listener_SSLContext := Some (buildListenerSSLContext h (AuthCertsPath h))\<rparr>
      else listener)"

text \<open>
  \<^verbatim>\<open>buildTCPListener\<close>. A listener literal that names neither \<^verbatim>\<open>BindToPort\<close> nor
  \<^verbatim>\<open>UseOriginalDst\<close> leaves them \<^verbatim>\<open>false\<close>.
\<close>

definition buildTCPListener :: "TCPRouteConfig \<Rightarrow> string \<Rightarrow> int \<Rightarrow> Protocol \<Rightarrow> ('mx, 'ff) Listener" where
  "buildTCPListener tcpConfig ip port protocol =
     (let baseTCPProxy =
            \<lparr>Filter_Type = read, Filter_Name = TCPProxyFilter,
             Filter_Config = TCPProxyFilterConfig_of
               \<lparr>TCPProxy_StatPrefix = ''tcp'', TCPProxy_RouteConfig = tcpConfig\<rparr>\<rparr>;
          tcp =
            \<lparr>Listener_Address = ''tcp://'' @ ip @ '':'' @ fmt_d port,
             Listener_Name = ''tcp_'' @ ip @ ''_'' @ fmt_d port,
             Listener_Filters = [baseTCPProxy],
             Listener_SSLContext = None, BindToPort = False, UseOriginalDst = False\<rparr>
      in case protocol of
           ProtocolMongo \<Rightarrow>
             \<lparr>Listener_Address = ''tcp://'' @ ip @ '':'' @ fmt_d port,
              Listener_Name = ''mongo_'' @ ip @ ''_'' @ fmt_d port,
              Listener_Filters =
                [\<lparr>Filter_Type = both, Filter_Name = MongoProxyFilter,
                  Filter_Config = MongoProxyFilterConfig_of \<lparr>Mongo_StatPrefix = ''mongo''\<rparr>\<rparr>,
                 baseTCPProxy],
              Listener_SSLContext = None, BindToPort = False, UseOriginalDst = False\<rparr>
         | ProtocolRedis \<Rightarrow>
             (case TCP_Routes tcpConfig of
                [route] \<Rightarrow>
                  \<lparr>Listener_Address = ''tcp://'' @ ip @ '':'' @ fmt_d port,
                   Listener_Name = ''redis_'' @ ip @ ''_'' @ fmt_d port,
                   Listener_Filters =
                     [\<lparr>Filter_Type = both, Filter_Name = RedisProxyFilter,
                       Filter_Config = RedisProxyFilterConfig_of
                         \<lparr>ClusterName = TCPRoute_Cluster route, Redis_StatPrefix = ''redis'',
                          ConnPool = \<lparr>OperationTimeoutMS = RedisDefaultOpTimeout_ms\<rparr>\<rparr>\<rparr>],
                   Listener_SSLContext = None, BindToPort = False, UseOriginalDst = False\<rparr>
              | _ \<Rightarrow> tcp)
         | _ \<Rightarrow> tcp)"

text \<open>
  \<^verbatim>\<open>truncateClusterName\<close>: \<^verbatim>\<open>name[:MaxClusterNameLength-sha1.Size*2]\<close> is the prefix of
  that many bytes, and \<^verbatim>\<open>%x\<close> of the sum its forty hexadecimal digits.
\<close>

definition truncateClusterName :: "('rule, 'mx, 'ff) helpers \<Rightarrow> string \<Rightarrow> string" where
  "truncateClusterName h name =
     (if length name > MaxClusterNameLength h then
        (let prefix = take (MaxClusterNameLength h - sha1_Size * 2) name;
             sum = sha1_Sum h name
         in prefix @ fmt_x (Rep_sha1_sum sum))
      else name)"

subsection \<open>HTTP routes of a destination\<close>

text \<open>
  The loop of \<^verbatim>\<open>buildDestinationHTTPRoutes\<close> over the sorted rules. It returns the
  routes and the flag \<^verbatim>\<open>useDefaultRoute\<close>; a catch-all route clears the flag and
  breaks out of the loop.
\<close>

fun buildRuleRoutes ::
  "('rule, 'mx, 'ff) helpers \<Rightarrow> Service \<Rightarrow> Port \<Rightarrow> 'rule list \<Rightarrow> HTTPRoute list
    \<Rightarrow> HTTPRoute list \<times> bool" where
  "buildRuleRoutes h service servicePort [] routes = (routes, True)"
| "buildRuleRoutes h service servicePort (rule # rules) routes =
     (let httpRoute = buildHTTPRoute h rule service servicePort;
          routes = routes @ [httpRoute]
      in if CatchAll h httpRoute then (routes, False)
         else buildRuleRoutes h service servicePort rules routes)"

definition buildDestinationHTTPRoutes ::
  "('rule, 'mx, 'ff) helpers \<Rightarrow> Service \<Rightarrow> Port \<Rightarrow> ServiceInstance list
    \<Rightarrow> 'rule IstioConfigStore \<Rightarrow> HTTPRoute list" where
  "buildDestinationHTTPRoutes h service servicePort instances config =
     (let protocol = Port_Protocol servicePort
      in if protocol = ProtocolHTTP \<or> protocol = ProtocolHTTP2 \<or> protocol = ProtocolGRPC then
           (let rules = RouteRules config instances (Hostname service);
                rules = SortRouteRules h rules;
                (routes, useDefaultRoute) = buildRuleRoutes h service servicePort rules []
            in if useDefaultRoute then
                 (let cluster = buildOutboundCluster h (Hostname service) servicePort None
                  in routes @ [buildDefaultRoute h cluster])
               else routes)
         else if protocol = ProtocolHTTPS then
           (if External service then
              (let cluster = buildOutboundCluster h (Hostname service) servicePort None
               in [buildDefaultRoute h cluster])
            else [])
         else [])"

fun outboundHTTPPorts ::
  "('rule, 'mx, 'ff) helpers \<Rightarrow> string list \<Rightarrow> ServiceInstance list \<Rightarrow> 'rule IstioConfigStore
    \<Rightarrow> Service \<Rightarrow> Port list \<Rightarrow> HTTPRouteConfigs \<Rightarrow> HTTPRouteConfigs" where
  "outboundHTTPPorts h domainSuffix instances config service [] httpConfigs = httpConfigs"
| "outboundHTTPPorts h domainSuffix instances config service (servicePort # ports) httpConfigs =
     (let routes = buildDestinationHTTPRoutes h service servicePort instances config
      in outboundHTTPPorts h domainSuffix instances config service ports
           (if length routes > 0 then
              (let host = buildVirtualHost h service servicePort domainSuffix routes
               in appendVirtualHost httpConfigs (Port_Port servicePort) host)
            else httpConfigs))"

fun outboundHTTPServices ::
  "('rule, 'mx, 'ff) helpers \<Rightarrow> string list \<Rightarrow> ServiceInstance list \<Rightarrow> 'rule IstioConfigStore
    \<Rightarrow> Service list \<Rightarrow> HTTPRouteConfigs \<Rightarrow> HTTPRouteConfigs" where
  "outboundHTTPServices h domainSuffix instances config [] httpConfigs = httpConfigs"
| "outboundHTTPServices h domainSuffix instances config (service # services) httpConfigs =
     outboundHTTPServices h domainSuffix instances config services
       (outboundHTTPPorts h domainSuffix instances config service (Service_Ports service) httpConfigs)"

definition buildOutboundHTTPRoutes ::
  "('rule, 'mx, 'ff) helpers \<Rightarrow> MeshConfig \<Rightarrow> Node \<Rightarrow> ServiceInstance list \<Rightarrow> Service list
    \<Rightarrow> 'rule IstioConfigStore \<Rightarrow> HTTPRouteConfigs" where
  "buildOutboundHTTPRoutes h mesh sidecar instances services config =
     (let suffix = strings_Split h (Domain sidecar) ''.''
      in HTTPRouteConfigs_normalize h (outboundHTTPServices h suffix instances config services []))"

subsection \<open>Outbound TCP listeners\<close>

text \<open>
  The state of the two nested loops of \<^verbatim>\<open>buildOutboundTCPListeners\<close>: the listeners and
  clusters built so far, the shared original-destination cluster once it is built, and
  the keys of the map \<^verbatim>\<open>wildcardListenerPorts\<close> (every key maps to \<^verbatim>\<open>true\<close>); the
  field \<open>st_x\<close> is the Go variable \<^verbatim>\<open>x\<close>.
\<close>

record ('mx, 'ff) tcp_state =
  st_tcpListeners :: "('mx, 'ff) Listener list"
  st_tcpClusters :: "Cluster list"
  st_originalDstCluster :: "Cluster option"
  st_wildcardListenerPorts :: "int set"

definition outboundTCPPort ::
  "('rule, 'mx, 'ff) helpers \<Rightarrow> MeshConfig \<Rightarrow> Node \<Rightarrow> Service \<Rightarrow> Port \<Rightarrow> ('mx, 'ff) tcp_state
    \<Rightarrow> ('mx, 'ff) tcp_state" where
  "outboundTCPPort h mesh sidecar service servicePort st =
     (if Port_Protocol servicePort = ProtocolTCP \<or> Port_Protocol servicePort = ProtocolHTTPS \<or>
         Port_Protocol servicePort = ProtocolMongo \<or> Port_Protocol servicePort = ProtocolRedis then
        (if LoadBalancingDisabled service \<or> Service_Address service = [] \<or>
            Node_Type sidecar = Router then
           (if Port_Port servicePort \<in> st_wildcardListenerPorts st then st
            else
              (let st = st\<lparr>st_wildcardListenerPorts :=
                         insert (Port_Port servicePort) (st_wildcardListenerPorts st)\<rparr>;
                   (cluster, st) =
                     (if LoadBalancingDisabled service \<and> Node_Type sidecar \<noteq> Router then
                        (case st_originalDstCluster st of
                           None \<Rightarrow>
                             (let c = buildOriginalDSTCluster h ''orig-dst-cluster-tcp''
                                        (ConnectTimeout mesh)
                              in (c, st\<lparr>st_originalDstCluster := Some c,
                                        st_tcpClusters := st_tcpClusters st @ [c]\<rparr>))
                         | Some c \<Rightarrow> (c, st))
                      else
                        (let c = buildOutboundCluster h (Hostname service) servicePort None
                         in (c, st\<lparr>st_tcpClusters := st_tcpClusters st @ [c]\<rparr>)));
                   route = buildTCPRoute h cluster [];
                   config = \<lparr>TCP_Routes = [route]\<rparr>;
                   listener = buildTCPListener config WildcardAddress (Port_Port servicePort)
                                (Port_Protocol servicePort);
                   listener = (if Node_Type sidecar = Router then listener\<lparr>BindToPort := True\<rparr>
                               else listener)
               in st\<lparr>st_tcpListeners := st_tcpListeners st @ [listener]\<rparr>))
         else
           (let cluster = buildOutboundCluster h (Hostname service) servicePort None;
                route = buildTCPRoute h cluster [Service_Address service];
                config = \<lparr>TCP_Routes = [route]\<rparr>;
                listener = buildTCPListener config (Service_Address service)
                             (Port_Port servicePort) (Port_Protocol servicePort)
            in st\<lparr>st_tcpClusters := st_tcpClusters st @ [cluster],
                   st_tcpListeners := st_tcpListeners st @ [listener]\<rparr>))
      else st)"

fun outboundTCPPorts ::
  "('rule, 'mx, 'ff) helpers \<Rightarrow> MeshConfig \<Rightarrow> Node \<Rightarrow> Service \<Rightarrow> Port list \<Rightarrow> ('mx, 'ff) tcp_state
    \<Rightarrow> ('mx, 'ff) tcp_state" where
  "outboundTCPPorts h mesh sidecar service [] st = st"
| "outboundTCPPorts h mesh sidecar service (servicePort # ports) st =
     outboundTCPPorts h mesh sidecar service ports
       (outboundTCPPort h mesh sidecar service servicePort st)"

fun outboundTCPServices ::
  "('rule, 'mx, 'ff) helpers \<Rightarrow> MeshConfig \<Rightarrow> Node \<Rightarrow> Service list \<Rightarrow> ('mx, 'ff) tcp_state
    \<Rightarrow> ('mx, 'ff) tcp_state" where
  "outboundTCPServices h mesh sidecar [] st = st"
| "outboundTCPServices h mesh sidecar (service # services) st =
     outboundTCPServices h mesh sidecar services
       (if External service then st
        else outboundTCPPorts h mesh sidecar service (Service_Ports service) st)"

definition buildOutboundTCPListeners ::
  "('rule, 'mx, 'ff) helpers \<Rightarrow> MeshConfig \<Rightarrow> Node \<Rightarrow> Service list
    \<Rightarrow> ('mx, 'ff) Listener list \<times> Cluster list" where
  "buildOutboundTCPListeners h mesh sidecar services =
     (let st = outboundTCPServices h mesh sidecar services
                 \<lparr>st_tcpListeners = [], st_tcpClusters = [], st_originalDstCluster = None,
                  st_wildcardListenerPorts = {}\<rparr>
      in (st_tcpListeners st, st_tcpClusters st))"

subsection \<open>Inbound and management listeners\<close>

text \<open>
  The loop of \<^verbatim>\<open>buildInboundListeners\<close> over the sorted route rules of an HTTP
  endpoint: a rule whose inbound route is \<^verbatim>\<open>nil\<close> adds nothing.
\<close>

fun inboundRoutes ::
  "('rule, 'mx, 'ff) helpers \<Rightarrow> MeshConfig \<Rightarrow> ServiceInstance \<Rightarrow> Cluster \<Rightarrow> 'rule list
    \<Rightarrow> HTTPRoute list \<Rightarrow> HTTPRoute list" where
  "inboundRoutes h mesh instance cluster [] routes = routes"
| "inboundRoutes h mesh instance cluster (rule # rules) routes =
     inboundRoutes h mesh instance cluster rules
       (case buildInboundRoute h rule cluster of
          None \<Rightarrow> routes
        | Some route \<Rightarrow>
            (let route =
                   (if MixerAddress mesh \<noteq> [] then
                      route\<lparr>OpaqueConfig := buildMixerOpaqueConfig h (\<not> DisablePolicyChecks mesh)
                        False (Hostname (Instance_Service instance))\<rparr>
                    else route)
             in routes @ [route]))"

text \<open>
  One round of the loop over the instances: the inbound cluster, and the listener unless
  the protocol is unsupported (\<^verbatim>\<open>listener\<close> stays \<^verbatim>\<open>nil\<close>).
\<close>

definition inboundListener ::
  "('rule, 'mx, 'ff) helpers \<Rightarrow> MeshConfig \<Rightarrow> Node \<Rightarrow> ServiceInstance list \<Rightarrow> 'rule IstioConfigStore
    \<Rightarrow> ServiceInstance \<Rightarrow> Cluster \<times> ('mx, 'ff) Listener option" where
  "inboundListener h mesh sidecar instances config instance =
     (let endpoint = Endpoint instance;
          servicePort = ServicePort endpoint;
          protocol = Port_Protocol servicePort;
          cluster = buildInboundCluster h (Endpoint_Port endpoint) protocol (ConnectTimeout mesh);
          listener =
            (if protocol = ProtocolHTTP \<or> protocol = ProtocolHTTP2 \<or> protocol = ProtocolGRPC then
               (let defaultRoute = buildDefaultRoute h cluster;
                    defaultRoute =
                      (if MixerAddress mesh \<noteq> [] then
                         defaultRoute\<lparr>OpaqueConfig :=
                           buildMixerOpaqueConfig h (\<not> DisablePolicyChecks mesh) False
                             (Hostname (Instance_Service instance))\<rparr>
                       else defaultRoute);
                    host = \<lparr>VirtualHost_Name = ''inbound|'' @ fmt_d (Endpoint_Port endpoint),
                            Domains = [''*''], VirtualHost_Routes = []\<rparr>;
                    host =
                      (if protocol = ProtocolHTTP then
                         (let rules = RouteRulesByDestination config instances;
                              rules = SortRouteRules h rules
                          in host\<lparr>VirtualHost_Routes :=
                               inboundRoutes h mesh instance cluster rules
                                 (VirtualHost_Routes host)\<rparr>)
                       else host);
                    host = host\<lparr>VirtualHost_Routes := VirtualHost_Routes host @ [defaultRoute]\<rparr>;
                    routeConfig = \<lparr>VirtualHosts = [host]\<rparr>
                in Some (buildHTTPListener h mesh sidecar instances (Some routeConfig)
                           (Endpoint_Address endpoint) (Endpoint_Port endpoint) [] False
                           IngressTraceOperation config))
             else if protocol = ProtocolTCP \<or> protocol = ProtocolHTTPS \<or>
                     protocol = ProtocolMongo \<or> protocol = ProtocolRedis then
               (let listener = buildTCPListener
                      \<lparr>TCP_Routes = [buildTCPRoute h cluster [Endpoint_Address endpoint]]\<rparr>
                      (Endpoint_Address endpoint) (Endpoint_Port endpoint) protocol
                in Some
                     (if MixerAddress mesh \<noteq> [] then
                        (let filter = \<lparr>Filter_Type = both, Filter_Name = MixerFilter,
                               Filter_Config = FilterMixerConfig_of
                                 (mixerTCPConfig h sidecar (\<not> DisablePolicyChecks mesh) instance)\<rparr>
                         in listener\<lparr>Listener_Filters := [filter] @ Listener_Filters listener\<rparr>)
                      else listener))
             else None)
      in (cluster,
          map_option
            (\<lambda>listener. mayApplyInboundAuth h listener mesh
               (Port_AuthenticationPolicy (ServicePort endpoint)))
            listener))"

fun inboundInstances ::
  "('rule, 'mx, 'ff) helpers \<Rightarrow> MeshConfig \<Rightarrow> Node \<Rightarrow> ServiceInstance list \<Rightarrow> 'rule IstioConfigStore
    \<Rightarrow> ServiceInstance list \<Rightarrow> ('mx, 'ff) Listener list \<times> Cluster list
    \<Rightarrow> ('mx, 'ff) Listener list \<times> Cluster list" where
  "inboundInstances h mesh sidecar instances config [] (listeners, clusters) = (listeners, clusters)"
| "inboundInstances h mesh sidecar instances config (instance # rest) (listeners, clusters) =
     (let (cluster, listener) = inboundListener h mesh sidecar instances config instance;
          clusters = clusters @ [cluster];
          listeners = (case listener of None \<Rightarrow> listeners | Some l \<Rightarrow> listeners @ [l])
      in inboundInstances h mesh sidecar instances config rest (listeners, clusters))"

definition buildInboundListeners ::
  "('rule, 'mx, 'ff) helpers \<Rightarrow> MeshConfig \<Rightarrow> Node \<Rightarrow> ServiceInstance list \<Rightarrow> 'rule IstioConfigStore
    \<Rightarrow> ('mx, 'ff) Listener list \<times> Cluster list" where
  "buildInboundListeners h mesh sidecar instances config =
     inboundInstances h mesh sidecar instances config instances ([], [])"

fun mgmtPorts ::
  "('rule, 'mx, 'ff) helpers \<Rightarrow> MeshConfig \<Rightarrow> string \<Rightarrow> Port list
    \<Rightarrow> ('mx, 'ff) Listener list \<times> Cluster list \<Rightarrow> ('mx, 'ff) Listener list \<times> Cluster list" where
  "mgmtPorts h mesh managementIP [] (listeners, clusters) = (listeners, clusters)"
| "mgmtPorts h mesh managementIP (mPort # ports) (listeners, clusters) =
     mgmtPorts h mesh managementIP ports
       (if Port_Protocol mPort = ProtocolHTTP \<or> Port_Protocol mPort = ProtocolHTTP2 \<or>
           Port_Protocol mPort = ProtocolGRPC \<or> Port_Protocol mPort = ProtocolTCP \<or>
           Port_Protocol mPort = ProtocolHTTPS \<or> Port_Protocol mPort = ProtocolMongo \<or>
           Port_Protocol mPort = ProtocolRedis then
          (let cluster = buildInboundCluster h (Port_Port mPort) ProtocolTCP (ConnectTimeout mesh);
               listener = buildTCPListener
                 \<lparr>TCP_Routes = [buildTCPRoute h cluster [managementIP]]\<rparr>
                 managementIP (Port_Port mPort) ProtocolTCP
           in (listeners @ [listener], clusters @ [cluster]))
        else (listeners, clusters))"

definition buildMgmtPortListeners ::
  "('rule, 'mx, 'ff) helpers \<Rightarrow> MeshConfig \<Rightarrow> Port list \<Rightarrow> string
    \<Rightarrow> ('mx, 'ff) Listener list \<times> Cluster list" where
  "buildMgmtPortListeners h mesh managementPorts managementIP =
     mgmtPorts h mesh managementIP managementPorts ([], [])"

subsection \<open>Egress rules\<close>

definition appendPortToDomains :: "string list \<Rightarrow> int \<Rightarrow> string list" where
  "appendPortToDomains domains port = domains @ map (\<lambda>domain. domain @ '':'' @ fmt_d port) domains"

text \<open>\<^verbatim>\<open>model.Service{Hostname: destination}\<close>: every other field has its zero value.\<close>

definition egressService :: "string \<Rightarrow> Service" where
  "egressService destination =
     \<lparr>Hostname = destination, Service_Address = [], ExternalName = [], Service_Ports = [],
      LoadBalancingDisabled = False\<rparr>"

text \<open>
  \<^verbatim>\<open>buildEgressVirtualHost\<close> sets \<^verbatim>\<open>port.Protocol\<close> to HTTP while the routes of an HTTPS
  port are built and to \<^verbatim>\<open>protocolToHandle\<close> afterwards; the cluster holds the pointer
  \<^verbatim>\<open>port\<close>, so its port is the one with the protocol written last.
\<close>

definition buildEgressVirtualHost ::
  "('rule, 'mx, 'ff) helpers \<Rightarrow> EgressRule \<Rightarrow> MeshConfig \<Rightarrow> Port \<Rightarrow> ServiceInstance list
    \<Rightarrow> 'rule IstioConfigStore \<Rightarrow> VirtualHost" where
  "buildEgressVirtualHost h rule mesh port instances config =
     (let destination = Destination_Service rule;
          protocolToHandle = (if Port_Protocol port = ProtocolGRPC then ProtocolHTTP2
                              else Port_Protocol port);
          svc = egressService destination;
          key = Service_Key h svc port None;
          name = truncateClusterName h key;
          externalTrafficCluster = buildOriginalDSTCluster h name (ConnectTimeout mesh);
          externalTrafficCluster = externalTrafficCluster
            \<lparr>ServiceName := key, Cluster_hostname := destination,
             Cluster_port := Some (port\<lparr>Port_Protocol := protocolToHandle\<rparr>)\<rparr>;
          externalTrafficCluster =
            (if protocolToHandle = ProtocolHTTPS then
               externalTrafficCluster\<lparr>Cluster_SSLContext := Some SSLContextExternal\<rparr>
             else externalTrafficCluster);
          externalTrafficCluster =
            (if protocolToHandle = ProtocolHTTP2 then
               externalTrafficCluster\<lparr>Features := ClusterFeatureHTTP2\<rparr>
             else externalTrafficCluster);
          routePort = (if protocolToHandle = ProtocolHTTPS then port\<lparr>Port_Protocol := ProtocolHTTP\<rparr>
                       else port);
          routes = buildDestinationHTTPRoutes h (egressService destination) routePort instances config;
          routes = map (\<lambda>route. route\<lparr>HTTPRoute_Cluster := Cluster_Name externalTrafficCluster,
                                        HTTPRoute_clusters := [externalTrafficCluster]\<rparr>) routes;
          virtualHostName = destination @ '':'' @ fmt_d (Port_Port port)
      in \<lparr>VirtualHost_Name = virtualHostName,
          Domains = appendPortToDomains [destination] (Port_Port port),
          VirtualHost_Routes = routes\<rparr>)"

text \<open>
  A \<^verbatim>\<open>model.Port\<close> literal without an authentication policy has the zero value of the
  enumeration, \<^verbatim>\<open>AuthenticationPolicy_NONE\<close>.
\<close>

definition egressModelPort :: "('rule, 'mx, 'ff) helpers \<Rightarrow> Protocol \<Rightarrow> int \<Rightarrow> Port" where
  "egressModelPort h protocol intPort =
     \<lparr>Port_Name = ''external-'' @ Protocol_String h protocol @ ''-'' @ fmt_d intPort,
      Port_Port = intPort, Port_Protocol = protocol,
      Port_AuthenticationPolicy = AuthenticationPolicy_NONE\<rparr>"

fun egressHTTPPorts ::
  "('rule, 'mx, 'ff) helpers \<Rightarrow> MeshConfig \<Rightarrow> ServiceInstance list \<Rightarrow> 'rule IstioConfigStore
    \<Rightarrow> EgressRule \<Rightarrow> EgressRule_Port list \<Rightarrow> HTTPRouteConfigs \<Rightarrow> HTTPRouteConfigs" where
  "egressHTTPPorts h mesh instances config rule [] httpConfigs = httpConfigs"
| "egressHTTPPorts h mesh instances config rule (port # ports) httpConfigs =
     egressHTTPPorts h mesh instances config rule ports
       (let protocol = ConvertCaseInsensitiveStringToProtocol h (EgressPort_Protocol port)
        in if protocol \<noteq> ProtocolHTTP \<and> protocol \<noteq> ProtocolHTTPS \<and>
              protocol \<noteq> ProtocolHTTP2 \<and> protocol \<noteq> ProtocolGRPC then httpConfigs
           else
             (let intPort = EgressPort_Port port;
                  modelPort = egressModelPort h protocol intPort
              in appendVirtualHost httpConfigs intPort
                   (buildEgressVirtualHost h rule mesh modelPort instances config)))"

fun egressHTTPRules ::
  "('rule, 'mx, 'ff) helpers \<Rightarrow> MeshConfig \<Rightarrow> ServiceInstance list \<Rightarrow> 'rule IstioConfigStore
    \<Rightarrow> EgressRule list \<Rightarrow> HTTPRouteConfigs \<Rightarrow> HTTPRouteConfigs" where
  "egressHTTPRules h mesh instances config [] httpConfigs = httpConfigs"
| "egressHTTPRules h mesh instances config (rule # rules) httpConfigs =
     egressHTTPRules h mesh instances config rules
       (egressHTTPPorts h mesh instances config rule (EgressRule_Ports rule) httpConfigs)"

definition buildEgressHTTPRoutes ::
  "('rule, 'mx, 'ff) helpers \<Rightarrow> MeshConfig \<Rightarrow> Node \<Rightarrow> ServiceInstance list \<Rightarrow> 'rule IstioConfigStore
    \<Rightarrow> HTTPRouteConfigs \<Rightarrow> HTTPRouteConfigs" where
  "buildEgressHTTPRoutes h mesh node instances config httpConfigs =
     (if Node_Type node = Router then httpConfigs
      else
        (let egressRules = RejectConflictingEgressRules h (EgressRules config)
         in HTTPRouteConfigs_normalize h
              (egressHTTPRules h mesh instances config egressRules httpConfigs)))"

definition buildEgressTCPRoute ::
  "('rule, 'mx, 'ff) helpers \<Rightarrow> EgressRule \<Rightarrow> MeshConfig \<Rightarrow> Port \<Rightarrow> TCPRoute \<times> Cluster" where
  "buildEgressTCPRoute h rule mesh port =
     (let destination = Destination_Service rule;
          svc = egressService destination;
          key = Service_Key h svc port None;
          name = truncateClusterName h key;
          externalTrafficCluster = buildOriginalDSTCluster h name (ConnectTimeout mesh);
          externalTrafficCluster = externalTrafficCluster
            \<lparr>Cluster_port := Some port, ServiceName := key, Cluster_hostname := destination\<rparr>;
          route = buildTCPRoute h externalTrafficCluster [destination]
      in (route, externalTrafficCluster))"

text \<open>
  The maps \<^verbatim>\<open>tcpRulesByPort\<close> and \<^verbatim>\<open>tcpProtocolByPort\<close> of
  \<^verbatim>\<open>buildEgressTCPListeners\<close>: the first as an association list in the order in which
  the ports are first met, the second as a map. A port that \<^verbatim>\<open>tcpProtocolByPort\<close> lacks
  reads as the zero value of the string type \<^verbatim>\<open>model.Protocol\<close>.
\<close>

definition appendRuleByPort ::
  "(int \<times> EgressRule list) list \<Rightarrow> int \<Rightarrow> EgressRule \<Rightarrow> (int \<times> EgressRule list) list" where
  "appendRuleByPort m intPort rule =
     (if intPort \<in> fst ` set m then
        map (\<lambda>(p, rules). if p = intPort then (p, rules @ [rule]) else (p, rules)) m
      else m @ [(intPort, [rule])])"

fun egressTCPPorts ::
  "('rule, 'mx, 'ff) helpers \<Rightarrow> EgressRule \<Rightarrow> EgressRule_Port list
    \<Rightarrow> (int \<times> EgressRule list) list \<times> (int \<rightharpoonup> Protocol)
    \<Rightarrow> (int \<times> EgressRule list) list \<times> (int \<rightharpoonup> Protocol)" where
  "egressTCPPorts h rule [] (tcpRulesByPort, tcpProtocolByPort) =
     (tcpRulesByPort, tcpProtocolByPort)"
| "egressTCPPorts h rule (port # ports) (tcpRulesByPort, tcpProtocolByPort) =
     egressTCPPorts h rule ports
       (let protocol = Protocol_of_upper h (EgressPort_Protocol port)
        in if \<not> IsEgressRulesSupportedTCPProtocol h protocol then
             (tcpRulesByPort, tcpProtocolByPort)
           else
             (let intPort = EgressPort_Port port
              in (appendRuleByPort tcpRulesByPort intPort rule,
                  tcpProtocolByPort(intPort \<mapsto> protocol))))"

fun egressTCPRules ::
  "('rule, 'mx, 'ff) helpers \<Rightarrow> EgressRule list
    \<Rightarrow> (int \<times> EgressRule list) list \<times> (int \<rightharpoonup> Protocol)
    \<Rightarrow> (int \<times> EgressRule list) list \<times> (int \<rightharpoonup> Protocol)" where
  "egressTCPRules h [] acc = acc"
| "egressTCPRules h (rule # rules) acc =
     egressTCPRules h rules (egressTCPPorts h rule (EgressRule_Ports rule) acc)"

fun egressTCPRoutes ::
  "('rule, 'mx, 'ff) helpers \<Rightarrow> MeshConfig \<Rightarrow> Port \<Rightarrow> EgressRule list
    \<Rightarrow> TCPRoute list \<times> Cluster list \<Rightarrow> TCPRoute list \<times> Cluster list" where
  "egressTCPRoutes h mesh modelPort [] (tcpRoutes, tcpClusters) = (tcpRoutes, tcpClusters)"
| "egressTCPRoutes h mesh modelPort (rule # rules) (tcpRoutes, tcpClusters) =
     (let (tcpRoute, tcpCluster) = buildEgressTCPRoute h rule mesh modelPort
      in egressTCPRoutes h mesh modelPort rules
           (tcpRoutes @ [tcpRoute], tcpClusters @ [tcpCluster]))"

fun egressTCPPortListeners ::
  "('rule, 'mx, 'ff) helpers \<Rightarrow> MeshConfig \<Rightarrow> (int \<rightharpoonup> Protocol) \<Rightarrow> (int \<times> EgressRule list) list
    \<Rightarrow> ('mx, 'ff) Listener list \<times> Cluster list \<Rightarrow> ('mx, 'ff) Listener list \<times> Cluster list" where
  "egressTCPPortListeners h mesh tcpProtocolByPort [] (tcpListeners, tcpClusters) =
     (tcpListeners, tcpClusters)"
| "egressTCPPortListeners h mesh tcpProtocolByPort ((intPort, rules) # rest)
       (tcpListeners, tcpClusters) =
     (let protocol = (case tcpProtocolByPort intPort of Some p \<Rightarrow> p | None \<Rightarrow> ProtocolOther []);
          modelPort = egressModelPort h protocol intPort;
          (tcpRoutes, tcpClusters) = egressTCPRoutes h mesh modelPort rules ([], tcpClusters);
          config = \<lparr>TCP_Routes = tcpRoutes\<rparr>;
          tcpListener = buildTCPListener config WildcardAddress intPort protocol
      in egressTCPPortListeners h mesh tcpProtocolByPort rest
           (tcpListeners @ [tcpListener], tcpClusters))"

definition buildEgressTCPListeners ::
  "('rule, 'mx, 'ff) helpers \<Rightarrow> MeshConfig \<Rightarrow> Node \<Rightarrow> 'rule IstioConfigStore
    \<Rightarrow> ('mx, 'ff) Listener list \<times> Cluster list" where
  "buildEgressTCPListeners h mesh node config =
     (if Node_Type node = Router then ([], [])
      else
        (let egressRules = RejectConflictingEgressRules h (EgressRules config);
             (tcpRulesByPort, tcpProtocolByPort) = egressTCPRules h egressRules ([], Map.empty)
         in egressTCPPortListeners h mesh tcpProtocolByPort tcpRulesByPort ([], [])))"

subsection \<open>Outbound listeners and the sidecar's configuration\<close>

fun outboundHTTPListeners ::
  "('rule, 'mx, 'ff) helpers \<Rightarrow> MeshConfig \<Rightarrow> Node \<Rightarrow> ServiceInstance list \<Rightarrow> 'rule IstioConfigStore
    \<Rightarrow> HTTPRouteConfigs \<Rightarrow> ('mx, 'ff) Listener list \<times> Cluster list
    \<Rightarrow> ('mx, 'ff) Listener list \<times> Cluster list" where
  "outboundHTTPListeners h mesh sidecar instances config [] (listeners, clusters) =
     (listeners, clusters)"
| "outboundHTTPListeners h mesh sidecar instances config ((port, routeConfig) # rest)
       (listeners, clusters) =
     (let operation = (if Node_Type sidecar = Router then IngressTraceOperation
                       else EgressTraceOperation);
          useRemoteAddress = (Node_Type sidecar = Router);
          l = buildHTTPListener h mesh sidecar instances (Some routeConfig) WildcardAddress port
                (fmt_d port) useRemoteAddress operation config
      in outboundHTTPListeners h mesh sidecar instances config rest
           (listeners @ [l], clusters @ HTTPRouteConfig_clusters h routeConfig))"

definition buildOutboundListeners ::
  "('rule, 'mx, 'ff) helpers \<Rightarrow> MeshConfig \<Rightarrow> Node \<Rightarrow> ServiceInstance list \<Rightarrow> Service list
    \<Rightarrow> 'rule IstioConfigStore \<Rightarrow> ('mx, 'ff) Listener list \<times> Cluster list" where
  "buildOutboundListeners h mesh sidecar instances services config =
     (let (listeners, clusters) = buildOutboundTCPListeners h mesh sidecar services;
          (egressTCPListeners, egressTCPClusters) = buildEgressTCPListeners h mesh sidecar config;
          listeners = listeners @ egressTCPListeners;
          clusters = clusters @ egressTCPClusters;
          httpOutbound = buildOutboundHTTPRoutes h mesh sidecar instances services config;
          httpOutbound = buildEgressHTTPRoutes h mesh sidecar instances config httpOutbound
      in outboundHTTPListeners h mesh sidecar instances config httpOutbound (listeners, clusters))"

text \<open>
  The loop of \<^verbatim>\<open>buildSidecarListenersClusters\<close> over the management listeners and
  their clusters (the two lists have one entry per supported management port, so the
  index \<^verbatim>\<open>i\<close> runs over the pairs): a listener whose address some listener of the list
  built so far has is left out, with its cluster.
\<close>

fun appendMgmtListeners ::
  "(('mx, 'ff) Listener \<times> Cluster) list \<Rightarrow> ('mx, 'ff) Listener list \<times> Cluster list
    \<Rightarrow> ('mx, 'ff) Listener list \<times> Cluster list" where
  "appendMgmtListeners [] (listeners, clusters) = (listeners, clusters)"
| "appendMgmtListeners ((m, c) # rest) (listeners, clusters) =
     (case GetByAddress listeners (Listener_Address m) of
        Some l \<Rightarrow> appendMgmtListeners rest (listeners, clusters)
      | None \<Rightarrow> appendMgmtListeners rest (listeners @ [m], clusters @ [c]))"

definition virtualListener :: "MeshConfig \<Rightarrow> ('mx, 'ff) Listener" where
  "virtualListener mesh =
     \<lparr>Listener_Address = ''tcp://'' @ WildcardAddress @ '':'' @ fmt_d (ProxyListenPort mesh),
      Listener_Name = VirtualListenerName,
      Listener_Filters = [],
      Listener_SSLContext = None,
      BindToPort = True,
      UseOriginalDst = True\<rparr>"

text \<open>
  \<^verbatim>\<open>sort.Slice\<close> orders the services by host name (Go compares strings byte by byte);
  the sort here is the stable one.
\<close>

definition buildSidecarListenersClusters ::
  "('rule, 'mx, 'ff) helpers \<Rightarrow> MeshConfig \<Rightarrow> ServiceInstance list \<Rightarrow> Service list \<Rightarrow> Port list
    \<Rightarrow> Node \<Rightarrow> 'rule IstioConfigStore \<Rightarrow> ('mx, 'ff) Listener list \<times> Cluster list" where
  "buildSidecarListenersClusters h mesh instances services managementPorts node config =
     (let services = sort_key Hostname services;
          listeners = [];
          clusters = [];
          (listeners, clusters) =
            (if Node_Type node = Router then
               (let (outbound, outClusters) =
                      buildOutboundListeners h mesh node instances services config
                in (listeners @ outbound, clusters @ outClusters))
             else if ProxyListenPort mesh > 0 then
               (let (inbound, inClusters) = buildInboundListeners h mesh node instances config;
                    (outbound, outClusters) =
                      buildOutboundListeners h mesh node instances services config;
                    (mgmtListeners, mgmtClusters) =
                      buildMgmtPortListeners h mesh managementPorts (IPAddress node);
                    listeners = listeners @ inbound;
                    listeners = listeners @ outbound;
                    clusters = clusters @ inClusters;
                    clusters = clusters @ outClusters;
                    (listeners, clusters) =
                      appendMgmtListeners (zip mgmtListeners mgmtClusters) (listeners, clusters);
                    listeners = map (\<lambda>listener. listener\<lparr>BindToPort := False\<rparr>) listeners;
                    listeners = listeners @ [virtualListener mesh]
                in (listeners, clusters))
             else (listeners, clusters));
          (listeners, clusters) =
            (if ProxyHttpPort mesh > 0 then
               (let useRemoteAddress = (Node_Type node = Router);
                    traceOperation = (if Node_Type node = Router then IngressTraceOperation
                                      else EgressTraceOperation);
                    listenAddress = (if Node_Type node = Router then WildcardAddress
                                     else LocalhostAddress);
                    httpOutbound = buildOutboundHTTPRoutes h mesh node instances services config;
                    httpOutbound = buildEgressHTTPRoutes h mesh node instances config httpOutbound;
                    clusters = clusters @ HTTPRouteConfigs_clusters h httpOutbound;
                    listeners = listeners @
                      [buildHTTPListener h mesh node instances None listenAddress
                         (ProxyHttpPort mesh) RDSAll useRemoteAddress traceOperation config]
                in (listeners, clusters))
             else (listeners, clusters))
      in (Listeners_normalize listeners, Clusters_normalize h clusters))"

subsection \<open>The entry points of the discovery service\<close>

text \<open>
  \<^verbatim>\<open>buildListeners\<close> and \<^verbatim>\<open>buildClusters\<close> return a value and an error; a \<^verbatim>\<open>nil\<close>
  slice is the empty list. The node type has the three values of section 3, so the
  closing \<^verbatim>\<open>return nil, nil\<close> of \<^verbatim>\<open>buildListeners\<close> is not reached.
\<close>

definition buildListeners ::
  "('rule, 'mx, 'ff) helpers \<Rightarrow> 'rule Environment \<Rightarrow> Node \<Rightarrow> ('mx, 'ff) Listener list \<times> error option" where
  "buildListeners h env node =
     (case Node_Type node of
        Ingress \<Rightarrow>
          (let (instances, err) = HostInstances (Env_ServiceDiscovery env) {IPAddress node}
           in case err of
                Some e \<Rightarrow> ([], Some e)
              | None \<Rightarrow>
                  (buildIngressListeners h (Mesh env) instances (Env_ServiceDiscovery env)
                     (Env_IstioConfigStore env) node, None))
      | _ \<Rightarrow>
          (let (instances, err) = HostInstances (Env_ServiceDiscovery env) {IPAddress node}
           in case err of
                Some e \<Rightarrow> ([], Some e)
              | None \<Rightarrow>
                  (let (services, err) = Services (Env_ServiceDiscovery env)
                   in case err of
                        Some e \<Rightarrow> ([], Some e)
                      | None \<Rightarrow>
                          (let (listeners, _) = buildSidecarListenersClusters h (Mesh env)
                                 instances services
                                 (ManagementPorts (Env_ServiceDiscovery env) (IPAddress node))
                                 node (Env_IstioConfigStore env)
                           in (listeners, None)))))"

text \<open>
  The part of \<^verbatim>\<open>buildClusters\<close> after the switch: the policies of the clusters, and the
  Mixer cluster.
\<close>

definition finishClusters ::
  "('rule, 'mx, 'ff) helpers \<Rightarrow> 'rule Environment \<Rightarrow> Node \<Rightarrow> ServiceInstance list \<Rightarrow> Cluster list
    \<Rightarrow> Cluster list" where
  "finishClusters h env node instances clusters =
     (let clusters = map (\<lambda>cluster. applyClusterPolicy h cluster instances
                           (Env_IstioConfigStore env) (Mesh env) (Env_ServiceAccounts env)) clusters
      in if MixerAddress (Mesh env) \<noteq> [] then
           clusters @ [buildMixerCluster h (Mesh env) node (MixerSAN env)]
         else clusters)"

definition buildClusters ::
  "('rule, 'mx, 'ff) helpers \<Rightarrow> 'rule Environment \<Rightarrow> Node \<Rightarrow> Cluster list \<times> error option" where
  "buildClusters h env node =
     (case Node_Type node of
        Ingress \<Rightarrow>
          (let (instances, err) = HostInstances (Env_ServiceDiscovery env) {IPAddress node};
               httpRouteConfigs = buildIngressRoutes h (Mesh env) instances
                 (Env_ServiceDiscovery env) (Env_IstioConfigStore env);
               clusters = Clusters_normalize h (HTTPRouteConfigs_clusters h httpRouteConfigs)
           in case err of
                Some e \<Rightarrow> (clusters, Some e)
              | None \<Rightarrow> (finishClusters h env node instances clusters, None))
      | _ \<Rightarrow>
          (let (instances, err) = HostInstances (Env_ServiceDiscovery env) {IPAddress node}
           in case err of
                Some e \<Rightarrow> ([], Some e)
              | None \<Rightarrow>
                  (let (services, err) = Services (Env_ServiceDiscovery env)
                   in case err of
                        Some e \<Rightarrow> ([], Some e)
                      | None \<Rightarrow>
                          (let (_, clusters) = buildSidecarListenersClusters h (Mesh env)
                                 instances services
                                 (ManagementPorts (Env_ServiceDiscovery env) (IPAddress node))
                                 node (Env_IstioConfigStore env)
                           in (finishClusters h env node instances clusters, None)))))"

text \<open>
  Modelled from the spec: the discovery endpoints (\<^verbatim>\<open>discovery.go\<close>) are not under
  \<^verbatim>\<open>src/\<close>. Sections 4.5 and 6: an endpoint answers 200 on success and 503 when the
  builder returns an error of the service registry.
\<close>

definition discoveryStatus :: "'a \<times> error option \<Rightarrow> nat" where
  "discoveryStatus result = (case snd result of None \<Rightarrow> 200 | Some e \<Rightarrow> 503)"

section \<open>Notions that the statements use\<close>

text \<open>
  The value of a string of decimal digits: the inverse of \<open>nat_digits\<close>.
\<close>

definition digits_value :: "string \<Rightarrow> nat" where
  "digits_value s = foldl (\<lambda>a c. 10 * a + (of_char c - 48)) 0 s"

text \<open>
  The ports of \<^verbatim>\<open>buildOutboundTCPListeners\<close>: a port of a TCP-family protocol asks for a
  wildcard listener when its service has load balancing disabled or no address, or when
  the proxy is a router. \<open>servicePorts\<close> lists the pairs of a service and a port in the
  order in which the two loops visit them (an external service is skipped);
  \<open>wildcardListener\<close> is the listener that the wildcard branch builds for a pair, and
  \<open>wildcardListenersOn\<close> selects the listeners at the wildcard address of a port.
\<close>

definition tcpFamily :: "Port \<Rightarrow> bool" where
  "tcpFamily servicePort =
     (Port_Protocol servicePort = ProtocolTCP \<or> Port_Protocol servicePort = ProtocolHTTPS \<or>
      Port_Protocol servicePort = ProtocolMongo \<or> Port_Protocol servicePort = ProtocolRedis)"

definition wildcardPort :: "Node \<Rightarrow> Service \<Rightarrow> Port \<Rightarrow> bool" where
  "wildcardPort sidecar service servicePort =
     (tcpFamily servicePort \<and>
      (LoadBalancingDisabled service \<or> Service_Address service = [] \<or> Node_Type sidecar = Router))"

definition servicePorts :: "Service list \<Rightarrow> (Service \<times> Port) list" where
  "servicePorts services =
     concat (map (\<lambda>service. if External service then []
                             else map (Pair service) (Service_Ports service)) services)"

definition wildcardListener ::
  "('rule, 'mx, 'ff) helpers \<Rightarrow> MeshConfig \<Rightarrow> Node \<Rightarrow> Service \<Rightarrow> Port \<Rightarrow> ('mx, 'ff) Listener" where
  "wildcardListener h mesh sidecar service servicePort =
     (let cluster =
            (if LoadBalancingDisabled service \<and> Node_Type sidecar \<noteq> Router then
               buildOriginalDSTCluster h ''orig-dst-cluster-tcp'' (ConnectTimeout mesh)
             else buildOutboundCluster h (Hostname service) servicePort None);
          listener = buildTCPListener \<lparr>TCP_Routes = [buildTCPRoute h cluster []]\<rparr> WildcardAddress
                       (Port_Port servicePort) (Port_Protocol servicePort)
      in if Node_Type sidecar = Router then listener\<lparr>BindToPort := True\<rparr> else listener)"

definition wildcardListenersOn :: "int \<Rightarrow> ('mx, 'ff) Listener list \<Rightarrow> ('mx, 'ff) Listener list" where
  "wildcardListenersOn port listeners =
     filter (\<lambda>listener. Listener_Address listener = ''tcp://'' @ WildcardAddress @ '':'' @ fmt_d port)
       listeners"

text \<open>
  The invariant of the loops on the shared original-destination cluster: once built, it
  is the cluster of that one name.
\<close>

definition origDstInv :: "('rule, 'mx, 'ff) helpers \<Rightarrow> MeshConfig \<Rightarrow> ('mx, 'ff) tcp_state \<Rightarrow> bool" where
  "origDstInv h mesh st =
     (st_originalDstCluster st = None \<or>
      st_originalDstCluster st =
        Some (buildOriginalDSTCluster h ''orig-dst-cluster-tcp'' (ConnectTimeout mesh)))"

text \<open>
  The listener of the HTTP proxy port, which \<^verbatim>\<open>buildSidecarListenersClusters\<close> adds when
  \<^verbatim>\<open>mesh.ProxyHttpPort\<close> is positive.
\<close>

definition httpProxyListener ::
  "('rule, 'mx, 'ff) helpers \<Rightarrow> MeshConfig \<Rightarrow> Node \<Rightarrow> ServiceInstance list
    \<Rightarrow> 'rule IstioConfigStore \<Rightarrow> ('mx, 'ff) Listener" where
  "httpProxyListener h mesh node instances config =
     buildHTTPListener h mesh node instances None
       (if Node_Type node = Router then WildcardAddress else LocalhostAddress)
       (ProxyHttpPort mesh) RDSAll (Node_Type node = Router)
       (if Node_Type node = Router then IngressTraceOperation else EgressTraceOperation) config"

text \<open>
  The HTTP filters of a listener, outermost first: those of its HTTP connection manager.
\<close>

definition httpFilterChain :: "('mx, 'ff) Listener \<Rightarrow> ('mx, 'ff) HTTPFilter list" where
  "httpFilterChain listener =
     concat (map (\<lambda>f. case Filter_Config f of
                         HTTPFilterConfig_of config \<Rightarrow> HTTP_Filters config
                       | _ \<Rightarrow> [])
       (Listener_Filters listener))"

section \<open>Fixtures (pilot/test/mock/service.go) and test doubles\<close>

definition PortHTTP :: Port where
  "PortHTTP = \<lparr>Port_Name = ''http'', Port_Port = 80, Port_Protocol = ProtocolHTTP,
               Port_AuthenticationPolicy = AuthenticationPolicy_INHERIT\<rparr>"

definition MakeService :: "string \<Rightarrow> string \<Rightarrow> Service" where
  "MakeService hostname address =
     \<lparr>Hostname = hostname, Service_Address = address, ExternalName = [],
      Service_Ports =
        [PortHTTP,
         \<lparr>Port_Name = ''http-status'', Port_Port = 81, Port_Protocol = ProtocolHTTP,
          Port_AuthenticationPolicy = AuthenticationPolicy_INHERIT\<rparr>,
         \<lparr>Port_Name = ''custom'', Port_Port = 90, Port_Protocol = ProtocolTCP,
          Port_AuthenticationPolicy = AuthenticationPolicy_INHERIT\<rparr>,
         \<lparr>Port_Name = ''mongo'', Port_Port = 100, Port_Protocol = ProtocolMongo,
          Port_AuthenticationPolicy = AuthenticationPolicy_INHERIT\<rparr>,
         \<lparr>Port_Name = ''redis'', Port_Port = 110, Port_Protocol = ProtocolRedis,
          Port_AuthenticationPolicy = AuthenticationPolicy_INHERIT\<rparr>],
      LoadBalancingDisabled = False\<rparr>"

definition MakeExternalHTTPSService :: "string \<Rightarrow> string \<Rightarrow> string \<Rightarrow> Service" where
  "MakeExternalHTTPSService hostname external address =
     \<lparr>Hostname = hostname, Service_Address = address, ExternalName = external,
      Service_Ports =
        [\<lparr>Port_Name = ''https'', Port_Port = 443, Port_Protocol = ProtocolHTTPS,
          Port_AuthenticationPolicy = AuthenticationPolicy_INHERIT\<rparr>],
      LoadBalancingDisabled = False\<rparr>"

definition HelloService :: Service where
  "HelloService = MakeService ''hello.default.svc.cluster.local'' ''10.1.0.0''"

definition WorldService :: Service where
  "WorldService = MakeService ''world.default.svc.cluster.local'' ''10.2.0.0''"

definition ExtHTTPSService :: Service where
  "ExtHTTPSService =
     MakeExternalHTTPSService ''httpsbin.default.svc.cluster.local'' ''httpbin.org'' []"

text \<open>\<^verbatim>\<open>MakeInstance(HelloService, PortHTTP, 0)\<close>.\<close>

definition helloInstanceV0 :: ServiceInstance where
  "helloInstanceV0 =
     \<lparr>Endpoint = \<lparr>Endpoint_Address = ''10.1.1.0'', Endpoint_Port = 80, ServicePort = PortHTTP\<rparr>,
      Instance_Service = HelloService, Labels = [(''version'', ''v0'')]\<rparr>"

definition HelloProxyV0 :: Node where
  "HelloProxyV0 = \<lparr>Node_Type = Sidecar, IPAddress = ''10.1.1.0'', ID = ''v0.default'',
                   Domain = ''default.svc.cluster.local''\<rparr>"

definition mockRouter :: Node where
  "mockRouter = \<lparr>Node_Type = Router, IPAddress = ''10.3.3.5'', ID = ''router.default'',
                 Domain = ''default.svc.cluster.local''\<rparr>"

definition mockManagementPorts :: "Port list" where
  "mockManagementPorts =
     [\<lparr>Port_Name = ''http'', Port_Port = 3333, Port_Protocol = ProtocolHTTP,
       Port_AuthenticationPolicy = AuthenticationPolicy_NONE\<rparr>,
      \<lparr>Port_Name = ''custom'', Port_Port = 9999, Port_Protocol = ProtocolTCP,
       Port_AuthenticationPolicy = AuthenticationPolicy_NONE\<rparr>]"

text \<open>
  A mesh configuration with the sidecar's redirect port, and test doubles for the
  functions that are parameters: a route rule is the route it translates to, a cluster
  has the name of its destination and nothing else, and a normalisation changes nothing.
\<close>

definition testMesh :: MeshConfig where
  "testMesh =
     \<lparr>AuthPolicy = MeshConfig_NONE,
      ConnectTimeout = \<lparr>Seconds = 1, Nanos = 0\<rparr>,
      RdsRefreshDelay = \<lparr>Seconds = 1, Nanos = 0\<rparr>,
      ProxyListenPort = 15001, ProxyHttpPort = 0,
      MixerAddress = [], AccessLogFile = [],
      EnableTracing = False, DisablePolicyChecks = False\<rparr>"

definition testCluster :: "string \<Rightarrow> Cluster" where
  "testCluster name =
     \<lparr>Cluster_Name = name, ServiceName = [], Cluster_SSLContext = None, Features = [],
      Cluster_hostname = [], Cluster_port = None\<rparr>"

definition testRoute :: "string \<Rightarrow> string \<Rightarrow> HTTPRoute" where
  "testRoute pathPrefix cluster =
     \<lparr>Path = [], Prefix = pathPrefix, HTTPRoute_Cluster = cluster, OpaqueConfig = [],
      HTTPRoute_clusters = []\<rparr>"

definition testStore :: "HTTPRoute list \<Rightarrow> HTTPRoute IstioConfigStore" where
  "testStore rules =
     \<lparr>RouteRules = (\<lambda>instances hostname. rules),
      RouteRulesByDestination = (\<lambda>instances. []),
      EgressRules = []\<rparr>"

definition testHelpers :: "(HTTPRoute, unit, unit) helpers" where
  "testHelpers =
     \<lparr>buildHTTPRoute = (\<lambda>rule service port. rule),
      CatchAll = (\<lambda>route. Path route = [] \<and> Prefix route = ''/''),
      buildDefaultRoute = (\<lambda>cluster. testRoute ''/'' (Cluster_Name cluster)),
      buildInboundRoute = (\<lambda>rule cluster. None),
      buildTCPRoute = (\<lambda>cluster addresses.
        \<lparr>TCPRoute_Cluster = Cluster_Name cluster, DestinationIPList = addresses,
         clusterRef = cluster\<rparr>),
      buildVirtualHost = (\<lambda>service port suffix routes.
        \<lparr>VirtualHost_Name = Hostname service, Domains = [Hostname service],
         VirtualHost_Routes = routes\<rparr>),
      SortRouteRules = (\<lambda>rules. rules),
      buildFaultFilters = (\<lambda>routeConfig. []),
      buildMixerOpaqueConfig = (\<lambda>check forward hostname. []),
      mixerHTTPRouteConfig = (\<lambda>node instances store. ()),
      mixerTCPConfig = (\<lambda>node check instance. ()),
      HTTPRouteConfigs_normalize = (\<lambda>configs. configs),
      HTTPRouteConfigs_clusters = (\<lambda>configs. []),
      HTTPRouteConfig_clusters = (\<lambda>config. []),
      protoDurationToMS = (\<lambda>d. Seconds d * 1000),
      buildOutboundCluster = (\<lambda>hostname port labels. testCluster hostname),
      buildInboundCluster = (\<lambda>port protocol timeout. testCluster (fmt_d port)),
      buildOriginalDSTCluster = (\<lambda>name timeout. testCluster name),
      Clusters_normalize = (\<lambda>clusters. clusters),
      buildListenerSSLContext = (\<lambda>certsDir.
        \<lparr>CertChainFile = certsDir, PrivateKeyFile = certsDir, CaCertFile = certsDir\<rparr>),
      AuthCertsPath = ''/etc/certs/'',
      sha1_Sum = (\<lambda>name. Abs_sha1_sum (replicate 20 0)),
      MaxClusterNameLength = 189,
      Service_Key = (\<lambda>service port labels. Hostname service),
      RejectConflictingEgressRules = (\<lambda>rules. map snd rules),
      ConvertCaseInsensitiveStringToProtocol = (\<lambda>protocol. ProtocolOther protocol),
      Protocol_of_upper = (\<lambda>protocol. ProtocolOther protocol),
      IsEgressRulesSupportedTCPProtocol = (\<lambda>protocol. protocol = ProtocolTCP),
      Protocol_String = (\<lambda>protocol. []),
      strings_Split = (\<lambda>s sep. [s]),
      buildIngressListeners = (\<lambda>mesh instances discovery config node. []),
      buildIngressRoutes = (\<lambda>mesh instances discovery config. []),
      applyClusterPolicy = (\<lambda>cluster instances config mesh accounts. cluster),
      buildMixerCluster = (\<lambda>mesh node san. testCluster ''mixer_server'')\<rparr>"

text \<open>
  A service registry in the manner of \<^verbatim>\<open>mock.ServiceDiscovery\<close>: a call returns the
  error that is set for it, and no value with it.
\<close>

definition testDiscovery :: "error option \<Rightarrow> error option \<Rightarrow> ServiceDiscovery" where
  "testDiscovery ServicesError HostInstancesError =
     \<lparr>Services =
        (case ServicesError of
           Some e \<Rightarrow> ([], Some e)
         | None \<Rightarrow> ([HelloService, WorldService, ExtHTTPSService], None)),
      HostInstances = (\<lambda>addrs.
        (case HostInstancesError of Some e \<Rightarrow> ([], Some e) | None \<Rightarrow> ([], None))),
      ManagementPorts = (\<lambda>addr. mockManagementPorts)\<rparr>"

definition testEnvironment :: "error option \<Rightarrow> error option \<Rightarrow> HTTPRoute Environment" where
  "testEnvironment ServicesError HostInstancesError =
     \<lparr>Env_ServiceDiscovery = testDiscovery ServicesError HostInstancesError,
      Env_ServiceAccounts = (\<lambda>hostname ports. []),
      Env_IstioConfigStore = testStore [],
      Mesh = testMesh,
      MixerSAN = []\<rparr>"

section \<open>Authentication policy of inbound listeners\<close>

lemma buildTCPListener_SSLContext:
  "Listener_SSLContext (buildTCPListener tcpConfig ip port protocol) = None"
  by (simp add: buildTCPListener_def Let_def split: Protocol.splits list.splits)

lemma buildHTTPListener_SSLContext:
  "Listener_SSLContext
     (buildHTTPListener h mesh node instances routeConfig ip port rds useRemoteAddress direction store)
   = None"
  by (simp add: buildHTTPListener_def Let_def)

lemma inboundListener_SSLContext:
  "inboundListener h mesh sidecar instances config instance = (cluster, Some listener) \<Longrightarrow>
   (Listener_SSLContext listener \<noteq> None) =
     (consolidateAuthPolicy mesh (Port_AuthenticationPolicy (ServicePort (Endpoint instance)))
        = AuthenticationPolicy_MUTUAL_TLS)"
  by (auto simp add: inboundListener_def Let_def mayApplyInboundAuth_def
        buildTCPListener_SSLContext buildHTTPListener_SSLContext split: if_splits)

text \<open>
  Claim C1. \<^verbatim>\<open>consolidateAuthPolicy\<close> returns the policy of the service port unless it
  is INHERIT, and then the mesh policy, MUTUAL_TLS as MUTUAL_TLS and NONE as NONE.
  \<^verbatim>\<open>mayApplyInboundAuth\<close> gives a listener that has no SSL context one exactly when the
  consolidated policy is MUTUAL_TLS: in a mesh with MUTUAL_TLS exactly when the port
  policy is not \<^verbatim>\<open>AuthenticationPolicy_NONE\<close> (the port opts out: DISABLE), in a mesh
  with NONE exactly when it is \<^verbatim>\<open>AuthenticationPolicy_MUTUAL_TLS\<close> (the port opts in:
  ENABLE). The listener that \<^verbatim>\<open>buildInboundListeners\<close> builds for an instance has an SSL
  context exactly when the consolidated policy of the endpoint's service port is
  MUTUAL_TLS.
\<close>

theorem consolidateAuthPolicy_inbound_auth:
  "(p \<noteq> AuthenticationPolicy_INHERIT \<longrightarrow> consolidateAuthPolicy mesh p = p) \<and>
   (p = AuthenticationPolicy_INHERIT \<and> AuthPolicy mesh = MeshConfig_MUTUAL_TLS \<longrightarrow>
      consolidateAuthPolicy mesh p = AuthenticationPolicy_MUTUAL_TLS) \<and>
   (p = AuthenticationPolicy_INHERIT \<and> AuthPolicy mesh = MeshConfig_NONE \<longrightarrow>
      consolidateAuthPolicy mesh p = AuthenticationPolicy_NONE) \<and>
   (Listener_SSLContext listener = None \<longrightarrow>
      ((Listener_SSLContext (mayApplyInboundAuth h listener mesh p) \<noteq> None) =
         (consolidateAuthPolicy mesh p = AuthenticationPolicy_MUTUAL_TLS)) \<and>
      (AuthPolicy mesh = MeshConfig_MUTUAL_TLS \<longrightarrow>
         (Listener_SSLContext (mayApplyInboundAuth h listener mesh p) \<noteq> None) =
           (p \<noteq> AuthenticationPolicy_NONE)) \<and>
      (AuthPolicy mesh = MeshConfig_NONE \<longrightarrow>
         (Listener_SSLContext (mayApplyInboundAuth h listener mesh p) \<noteq> None) =
           (p = AuthenticationPolicy_MUTUAL_TLS))) \<and>
   (\<forall>cluster inbound.
      inboundListener h mesh sidecar instances config instance = (cluster, Some inbound) \<longrightarrow>
      (Listener_SSLContext inbound \<noteq> None) =
        (consolidateAuthPolicy mesh (Port_AuthenticationPolicy (ServicePort (Endpoint instance)))
           = AuthenticationPolicy_MUTUAL_TLS))"
proof -
  have "\<forall>cluster inbound.
      inboundListener h mesh sidecar instances config instance = (cluster, Some inbound) \<longrightarrow>
      (Listener_SSLContext inbound \<noteq> None) =
        (consolidateAuthPolicy mesh (Port_AuthenticationPolicy (ServicePort (Endpoint instance)))
           = AuthenticationPolicy_MUTUAL_TLS)"
    using inboundListener_SSLContext by blast
  then show ?thesis
    by (cases p; cases "AuthPolicy mesh")
       (simp_all add: consolidateAuthPolicy_def mayApplyInboundAuth_def)
qed

theorem consolidateAuthPolicy_inbound_auth_witness:
  "consolidateAuthPolicy (testMesh\<lparr>AuthPolicy := MeshConfig_MUTUAL_TLS\<rparr>)
     AuthenticationPolicy_INHERIT = AuthenticationPolicy_MUTUAL_TLS \<and>
   consolidateAuthPolicy testMesh AuthenticationPolicy_INHERIT = AuthenticationPolicy_NONE \<and>
   consolidateAuthPolicy testMesh AuthenticationPolicy_MUTUAL_TLS = AuthenticationPolicy_MUTUAL_TLS \<and>
   Listener_SSLContext
     (mayApplyInboundAuth testHelpers (buildTCPListener \<lparr>TCP_Routes = []\<rparr> ''10.1.1.0'' 1090 ProtocolTCP)
        (testMesh\<lparr>AuthPolicy := MeshConfig_MUTUAL_TLS\<rparr>) AuthenticationPolicy_INHERIT) \<noteq> None \<and>
   Listener_SSLContext
     (mayApplyInboundAuth testHelpers (buildTCPListener \<lparr>TCP_Routes = []\<rparr> ''10.1.1.0'' 1090 ProtocolTCP)
        testMesh AuthenticationPolicy_INHERIT) = None"
  using
    consolidateAuthPolicy_inbound_auth [of AuthenticationPolicy_INHERIT
      "testMesh\<lparr>AuthPolicy := MeshConfig_MUTUAL_TLS\<rparr>"
      "buildTCPListener \<lparr>TCP_Routes = []\<rparr> ''10.1.1.0'' 1090 ProtocolTCP" testHelpers
      HelloProxyV0 "[]" "testStore []"]
    consolidateAuthPolicy_inbound_auth [of AuthenticationPolicy_INHERIT testMesh
      "buildTCPListener \<lparr>TCP_Routes = []\<rparr> ''10.1.1.0'' 1090 ProtocolTCP" testHelpers
      HelloProxyV0 "[]" "testStore []"]
    consolidateAuthPolicy_inbound_auth [of AuthenticationPolicy_MUTUAL_TLS testMesh
      "buildTCPListener \<lparr>TCP_Routes = []\<rparr> ''10.1.1.0'' 1090 ProtocolTCP" testHelpers
      HelloProxyV0 "[]" "testStore []"]
  by (simp add: testMesh_def buildTCPListener_SSLContext)

section \<open>HTTP routes of a destination\<close>

lemma buildRuleRoutes_acc:
  "buildRuleRoutes h service servicePort rules routes =
     (let translated = map (\<lambda>rule. buildHTTPRoute h rule service servicePort) rules
      in if \<exists>r \<in> set translated. CatchAll h r
         then (routes @
                 take (Suc (length (takeWhile (\<lambda>r. \<not> CatchAll h r) translated))) translated,
               False)
         else (routes @ translated, True))"
  by (induction rules arbitrary: routes) (auto simp add: Let_def)

lemma take_first_hit:
  assumes "\<exists>r \<in> set xs. P r"
  defines "k \<equiv> length (takeWhile (\<lambda>r. \<not> P r) xs)"
  shows "take (Suc k) xs = takeWhile (\<lambda>r. \<not> P r) xs @ [xs ! k] \<and> P (xs ! k)"
proof -
  have "takeWhile (\<lambda>r. \<not> P r) xs \<noteq> xs"
    using assms(1) by (simp add: takeWhile_eq_all_conv)
  moreover have prefix: "takeWhile (\<lambda>r. \<not> P r) xs = take k xs"
    unfolding k_def by (rule takeWhile_eq_take)
  ultimately have lt: "k < length xs"
    by (metis linorder_not_less take_all)
  have "P (xs ! k)"
    using nth_length_takeWhile [of "\<lambda>r. \<not> P r" xs] lt unfolding k_def by simp
  moreover have "take (Suc k) xs = takeWhile (\<lambda>r. \<not> P r) xs @ [xs ! k]"
    using lt prefix by (simp add: take_Suc_conv_app_nth)
  ultimately show ?thesis by simp
qed

text \<open>
  Claim C2. For a service port of protocol HTTP, HTTP2 or GRPC,
  \<^verbatim>\<open>buildDestinationHTTPRoutes\<close> translates the sorted route rules in order. Let \<open>k\<close> be
  the number of translated routes before the first catch-all. If some translated route
  is a catch-all, the result is the first \<open>k + 1\<close> translated routes: the routes that are
  no catch-all, then that catch-all as the last element; no later rule contributes and no
  default route follows. If no translated route is a catch-all, the result is all the
  translated routes and then the default route to the baseline outbound cluster.
\<close>

theorem buildDestinationHTTPRoutes_catch_all:
  fixes h :: "('rule, 'mx, 'ff) helpers" and service servicePort instances
    and config :: "'rule IstioConfigStore"
  assumes "Port_Protocol servicePort = ProtocolHTTP \<or> Port_Protocol servicePort = ProtocolHTTP2 \<or>
           Port_Protocol servicePort = ProtocolGRPC"
  defines "translated \<equiv> map (\<lambda>rule. buildHTTPRoute h rule service servicePort)
             (SortRouteRules h (RouteRules config instances (Hostname service)))"
  defines "routes \<equiv> buildDestinationHTTPRoutes h service servicePort instances config"
  defines "k \<equiv> length (takeWhile (\<lambda>r. \<not> CatchAll h r) translated)"
  shows "((\<exists>r \<in> set translated. CatchAll h r) \<longrightarrow>
            routes = take (Suc k) translated \<and>
            routes = takeWhile (\<lambda>r. \<not> CatchAll h r) translated @ [translated ! k] \<and>
            CatchAll h (translated ! k)) \<and>
         ((\<forall>r \<in> set translated. \<not> CatchAll h r) \<longrightarrow>
            routes = translated @
              [buildDefaultRoute h (buildOutboundCluster h (Hostname service) servicePort None)])"
proof -
  have loop: "buildRuleRoutes h service servicePort
                (SortRouteRules h (RouteRules config instances (Hostname service))) [] =
     (if \<exists>r \<in> set translated. CatchAll h r then (take (Suc k) translated, False)
      else (translated, True))"
    unfolding translated_def k_def by (simp only: buildRuleRoutes_acc Let_def append_Nil)
  have eq: "routes =
     (if \<exists>r \<in> set translated. CatchAll h r then take (Suc k) translated
      else translated @
        [buildDefaultRoute h (buildOutboundCluster h (Hostname service) servicePort None)])"
    using assms(1) unfolding routes_def buildDestinationHTTPRoutes_def Let_def loop
    by (simp split: if_splits)
  show ?thesis
  proof (rule conjI; rule impI)
    assume ex: "\<exists>r \<in> set translated. CatchAll h r"
    from take_first_hit [OF ex] eq ex
    show "routes = take (Suc k) translated \<and>
          routes = takeWhile (\<lambda>r. \<not> CatchAll h r) translated @ [translated ! k] \<and>
          CatchAll h (translated ! k)"
      unfolding k_def by simp
  next
    assume "\<forall>r \<in> set translated. \<not> CatchAll h r"
    then have "\<not> (\<exists>r \<in> set translated. CatchAll h r)" by blast
    with eq show "routes = translated @
        [buildDefaultRoute h (buildOutboundCluster h (Hostname service) servicePort None)]"
      by simp
  qed
qed

theorem buildDestinationHTTPRoutes_catch_all_witness:
  "buildDestinationHTTPRoutes testHelpers HelloService PortHTTP []
     (testStore [testRoute ''/a'' ''a'', testRoute ''/'' ''b'', testRoute ''/c'' ''c'']) =
     [testRoute ''/a'' ''a'', testRoute ''/'' ''b''] \<and>
   buildDestinationHTTPRoutes testHelpers HelloService PortHTTP []
     (testStore [testRoute ''/a'' ''a'', testRoute ''/c'' ''c'']) =
     [testRoute ''/a'' ''a'', testRoute ''/c'' ''c'',
      testRoute ''/'' ''hello.default.svc.cluster.local'']"
  using
    buildDestinationHTTPRoutes_catch_all [of PortHTTP testHelpers HelloService
      "testStore [testRoute ''/a'' ''a'', testRoute ''/'' ''b'', testRoute ''/c'' ''c'']" "[]"]
    buildDestinationHTTPRoutes_catch_all [of PortHTTP testHelpers HelloService
      "testStore [testRoute ''/a'' ''a'', testRoute ''/c'' ''c'']" "[]"]
  by (simp add: testHelpers_def testStore_def testRoute_def PortHTTP_def HelloService_def
        MakeService_def testCluster_def)

section \<open>The HTTP filter chain\<close>

text \<open>
  Claim C3, as the code has it. The listener of \<^verbatim>\<open>buildHTTPListener\<close> has one network
  filter, the HTTP connection manager, and its HTTP filters are, outermost first: the
  Mixer filter, present exactly when \<^verbatim>\<open>mesh.MixerAddress\<close> is not empty, then the CORS
  filter, then the fault filters, then the router filter. The router filter is the
  innermost for every mesh and route configuration; the CORS filter is the outermost
  only without a Mixer address.
\<close>

theorem buildHTTPListener_filter_order:
  "map Filter_Name (Listener_Filters
      (buildHTTPListener h mesh node instances routeConfig ip port rds useRemoteAddress direction store))
     = [HTTPConnectionManager] \<and>
   httpFilterChain
      (buildHTTPListener h mesh node instances routeConfig ip port rds useRemoteAddress direction store) =
     (if MixerAddress mesh \<noteq> [] then
        [\<lparr>HTTPFilter_Type = decoder, HTTPFilter_Name = MixerFilter,
          HTTPFilter_Config = HTTP_FilterMixerConfig (mixerHTTPRouteConfig h node instances store)\<rparr>]
      else []) @
     [\<lparr>HTTPFilter_Type = [], HTTPFilter_Name = CORSFilter, HTTPFilter_Config = CORSFilterConfig\<rparr>] @
     buildFaultFilters h routeConfig @
     [\<lparr>HTTPFilter_Type = decoder, HTTPFilter_Name = router, HTTPFilter_Config = FilterRouterConfig\<rparr>]"
  by (simp add: buildHTTPListener_def httpFilterChain_def Let_def)

theorem buildHTTPListener_filter_order_witness:
  "map HTTPFilter_Name (httpFilterChain
      (buildHTTPListener testHelpers (testMesh\<lparr>MixerAddress := ''istio-mixer:9091''\<rparr>) HelloProxyV0 []
         None WildcardAddress 80 ''80'' False EgressTraceOperation (testStore []))) =
     [MixerFilter, CORSFilter, router] \<and>
   map HTTPFilter_Name (httpFilterChain
      (buildHTTPListener testHelpers testMesh HelloProxyV0 []
         None WildcardAddress 80 ''80'' False EgressTraceOperation (testStore []))) =
     [CORSFilter, router]"
  using
    buildHTTPListener_filter_order [of testHelpers
      "testMesh\<lparr>MixerAddress := ''istio-mixer:9091''\<rparr>" HelloProxyV0 "[]" None
      WildcardAddress 80 "''80''" False EgressTraceOperation "testStore []"]
    buildHTTPListener_filter_order [of testHelpers testMesh HelloProxyV0 "[]" None
      WildcardAddress 80 "''80''" False EgressTraceOperation "testStore []"]
  by (simp add: testHelpers_def testMesh_def)

text \<open>
  With a Mixer address, the outermost HTTP filter of the listener is the Mixer filter and
  the CORS filter is the second: the order "CORS, then Mixer" of claim C3 fails.
\<close>

theorem buildHTTPListener_mixer_before_cors:
  "map HTTPFilter_Config (httpFilterChain
      (buildHTTPListener testHelpers (testMesh\<lparr>MixerAddress := ''istio-mixer:9091''\<rparr>) HelloProxyV0 []
         None WildcardAddress 80 ''80'' False EgressTraceOperation (testStore []))) =
     [HTTP_FilterMixerConfig (), CORSFilterConfig, FilterRouterConfig] \<and>
   HTTPFilter_Config (hd (httpFilterChain
      (buildHTTPListener testHelpers (testMesh\<lparr>MixerAddress := ''istio-mixer:9091''\<rparr>) HelloProxyV0 []
         None WildcardAddress 80 ''80'' False EgressTraceOperation (testStore [])))) \<noteq>
     CORSFilterConfig"
  by (simp add: buildHTTPListener_def httpFilterChain_def Let_def testHelpers_def testMesh_def)

section \<open>TCP listeners\<close>

text \<open>
  Claim C8. With protocol Redis, \<^verbatim>\<open>buildTCPListener\<close> returns a listener whose single
  filter is the Redis proxy filter, naming the cluster of the sole route, when the route
  config has exactly one route, and the plain TCP proxy listener when it has none or
  several; so the single filter is a Redis proxy filter exactly when there is one route.
  With protocol Mongo the filters are the Mongo proxy filter and then the TCP proxy
  filter.
\<close>

theorem buildTCPListener_redis_mongo:
  "(\<forall>route. TCP_Routes tcpConfig = [route] \<longrightarrow>
      Listener_Filters (buildTCPListener tcpConfig ip port ProtocolRedis :: ('mx, 'ff) Listener) =
        [\<lparr>Filter_Type = both, Filter_Name = RedisProxyFilter,
          Filter_Config = RedisProxyFilterConfig_of
            \<lparr>ClusterName = TCPRoute_Cluster route, Redis_StatPrefix = ''redis'',
             ConnPool = \<lparr>OperationTimeoutMS = RedisDefaultOpTimeout_ms\<rparr>\<rparr>\<rparr>]) \<and>
   (length (TCP_Routes tcpConfig) \<noteq> 1 \<longrightarrow>
      (buildTCPListener tcpConfig ip port ProtocolRedis :: ('mx, 'ff) Listener) =
        \<lparr>Listener_Address = ''tcp://'' @ ip @ '':'' @ fmt_d port,
         Listener_Name = ''tcp_'' @ ip @ ''_'' @ fmt_d port,
         Listener_Filters =
           [\<lparr>Filter_Type = read, Filter_Name = TCPProxyFilter,
             Filter_Config = TCPProxyFilterConfig_of
               \<lparr>TCPProxy_StatPrefix = ''tcp'', TCPProxy_RouteConfig = tcpConfig\<rparr>\<rparr>],
         Listener_SSLContext = None, BindToPort = False, UseOriginalDst = False\<rparr>) \<and>
   ((\<exists>redis. map Filter_Config
        (Listener_Filters (buildTCPListener tcpConfig ip port ProtocolRedis :: ('mx, 'ff) Listener)) =
        [RedisProxyFilterConfig_of redis]) = (length (TCP_Routes tcpConfig) = 1)) \<and>
   Listener_Filters (buildTCPListener tcpConfig ip port ProtocolMongo :: ('mx, 'ff) Listener) =
     [\<lparr>Filter_Type = both, Filter_Name = MongoProxyFilter,
       Filter_Config = MongoProxyFilterConfig_of \<lparr>Mongo_StatPrefix = ''mongo''\<rparr>\<rparr>,
      \<lparr>Filter_Type = read, Filter_Name = TCPProxyFilter,
       Filter_Config = TCPProxyFilterConfig_of
         \<lparr>TCPProxy_StatPrefix = ''tcp'', TCPProxy_RouteConfig = tcpConfig\<rparr>\<rparr>]"
  by (cases "TCP_Routes tcpConfig"; cases "tl (TCP_Routes tcpConfig)")
     (auto simp add: buildTCPListener_def Let_def)

theorem buildTCPListener_redis_mongo_witness:
  "map Filter_Config (Listener_Filters
      (buildTCPListener
         \<lparr>TCP_Routes = [buildTCPRoute testHelpers (testCluster ''out.redis'') []]\<rparr>
         WildcardAddress 110 ProtocolRedis :: (unit, unit) Listener)) =
     [RedisProxyFilterConfig_of
        \<lparr>ClusterName = ''out.redis'', Redis_StatPrefix = ''redis'',
         ConnPool = \<lparr>OperationTimeoutMS = RedisDefaultOpTimeout_ms\<rparr>\<rparr>] \<and>
   map Filter_Name (Listener_Filters
      (buildTCPListener \<lparr>TCP_Routes = []\<rparr> WildcardAddress 110 ProtocolRedis
         :: (unit, unit) Listener)) = [TCPProxyFilter]"
  using
    buildTCPListener_redis_mongo [of
      "\<lparr>TCP_Routes = [buildTCPRoute testHelpers (testCluster ''out.redis'') []]\<rparr>"
      WildcardAddress 110, where ?'mx = unit and ?'ff = unit]
    buildTCPListener_redis_mongo [of "\<lparr>TCP_Routes = []\<rparr>" WildcardAddress 110,
      where ?'mx = unit and ?'ff = unit]
  by (simp add: testHelpers_def testCluster_def)

section \<open>Cluster names\<close>

lemma length_hex_byte: "length (hex_byte b) = 2"
  by (simp add: hex_byte_def)

lemma length_fmt_x: "length (fmt_x bs) = 2 * length bs"
  by (induction bs) (simp_all add: fmt_x_def length_hex_byte)

lemma length_sha1_sum: "length (Rep_sha1_sum s) = 20"
  using Rep_sha1_sum [of s] by simp

text \<open>
  Claim C9. When the maximum leaves room for the forty hexadecimal digits of a SHA-1 sum
  (the Go constant expression \<^verbatim>\<open>MaxClusterNameLength-sha1.Size*2\<close> is a valid index),
  \<^verbatim>\<open>truncateClusterName\<close> returns a name of at most \<^verbatim>\<open>MaxClusterNameLength\<close> bytes
  unchanged, and otherwise the first \<^verbatim>\<open>MaxClusterNameLength - 40\<close> bytes of the name
  followed by the forty hexadecimal digits of the SHA-1 sum of the whole name; the result
  has never more than \<^verbatim>\<open>MaxClusterNameLength\<close> bytes. The result is a function of the
  name alone.
\<close>

theorem truncateClusterName_bounded:
  assumes "sha1_Size * 2 \<le> MaxClusterNameLength h"
  shows "(length name \<le> MaxClusterNameLength h \<longrightarrow> truncateClusterName h name = name) \<and>
    (length name > MaxClusterNameLength h \<longrightarrow>
       truncateClusterName h name =
         take (MaxClusterNameLength h - 40) name @ fmt_x (Rep_sha1_sum (sha1_Sum h name)) \<and>
       length (take (MaxClusterNameLength h - 40) name) = MaxClusterNameLength h - 40 \<and>
       length (fmt_x (Rep_sha1_sum (sha1_Sum h name))) = 40) \<and>
    length (truncateClusterName h name) \<le> MaxClusterNameLength h"
  using assms
  by (auto simp add: truncateClusterName_def Let_def sha1_Size_def length_fmt_x length_sha1_sum)

theorem truncateClusterName_bounded_witness:
  "truncateClusterName testHelpers ''out.hello.default.svc.cluster.local|http'' =
     ''out.hello.default.svc.cluster.local|http'' \<and>
   take 149 (truncateClusterName testHelpers (replicate 200 (CHR ''a''))) =
     replicate 149 (CHR ''a'') \<and>
   length (truncateClusterName testHelpers (replicate 200 (CHR ''a''))) = 189"
  using
    truncateClusterName_bounded [of testHelpers "''out.hello.default.svc.cluster.local|http''"]
    truncateClusterName_bounded [of testHelpers "replicate 200 (CHR ''a'')"]
  by (simp add: testHelpers_def sha1_Size_def)

section \<open>Egress rules and routers\<close>

text \<open>
  Claim C10. For a node of type Router, \<^verbatim>\<open>buildEgressHTTPRoutes\<close> returns its argument
  \<^verbatim>\<open>httpConfigs\<close> unchanged and \<^verbatim>\<open>buildEgressTCPListeners\<close> returns no listener and no
  cluster, for every config store: the egress rules are not read.
\<close>

theorem router_ignores_egress_rules:
  "Node_Type node = Router \<Longrightarrow>
     buildEgressHTTPRoutes h mesh node instances config httpConfigs = httpConfigs \<and>
     buildEgressTCPListeners h mesh node config = ([], [])"
  by (simp add: buildEgressHTTPRoutes_def buildEgressTCPListeners_def)

theorem router_ignores_egress_rules_witness:
  "buildEgressHTTPRoutes testHelpers testMesh mockRouter []
     ((testStore [])\<lparr>EgressRules := [(''google'',
        \<lparr>Destination_Service = ''*.google.com'',
         EgressRule_Ports = [\<lparr>EgressPort_Port = 80, EgressPort_Protocol = ''http''\<rparr>]\<rparr>)]\<rparr>)
     [(80, \<lparr>VirtualHosts = []\<rparr>)] = [(80, \<lparr>VirtualHosts = []\<rparr>)] \<and>
   buildEgressTCPListeners testHelpers testMesh mockRouter
     ((testStore [])\<lparr>EgressRules := [(''google'',
        \<lparr>Destination_Service = ''*.google.com'',
         EgressRule_Ports = [\<lparr>EgressPort_Port = 80, EgressPort_Protocol = ''tcp''\<rparr>]\<rparr>)]\<rparr>)
     = ([], [])"
  using
    router_ignores_egress_rules [of mockRouter testHelpers testMesh "[]"
      "(testStore [])\<lparr>EgressRules := [(''google'',
        \<lparr>Destination_Service = ''*.google.com'',
         EgressRule_Ports = [\<lparr>EgressPort_Port = 80, EgressPort_Protocol = ''http''\<rparr>]\<rparr>)]\<rparr>"
      "[(80, \<lparr>VirtualHosts = []\<rparr>)]"]
    router_ignores_egress_rules [of mockRouter testHelpers testMesh "[]"
      "(testStore [])\<lparr>EgressRules := [(''google'',
        \<lparr>Destination_Service = ''*.google.com'',
         EgressRule_Ports = [\<lparr>EgressPort_Port = 80, EgressPort_Protocol = ''tcp''\<rparr>]\<rparr>)]\<rparr>"
      "[]"]
  by (simp add: mockRouter_def)

section \<open>Decimal numerals and listener addresses\<close>

lemma digit_char_cases:
  assumes "d < 10"
  shows "of_char (digit_char d) = (48 + d :: nat) \<and> digit_char d \<noteq> CHR '':'' \<and>
         digit_char d \<noteq> CHR ''-'' \<and> CHR '':'' \<noteq> digit_char d \<and> CHR ''-'' \<noteq> digit_char d"
proof -
  from assms have "d = 0 \<or> d = 1 \<or> d = 2 \<or> d = 3 \<or> d = 4 \<or> d = 5 \<or> d = 6 \<or> d = 7 \<or> d = 8 \<or> d = 9"
    by arith
  then show ?thesis by (auto simp add: digit_char_def)
qed

lemma digits_value_nat_digits: "digits_value (nat_digits n) = n"
proof (induction n rule: nat_digits.induct)
  case (1 n)
  show ?case
  proof (cases "n < 10")
    case True
    then show ?thesis
      by (subst nat_digits.simps) (simp add: digits_value_def digit_char_cases)
  next
    case False
    have m: "n mod 10 < 10" by simp
    from False "1.IH" have "digits_value (nat_digits (n div 10)) = n div 10" by simp
    with False m show ?thesis
      by (subst nat_digits.simps) (simp add: digits_value_def digit_char_cases)
  qed
qed

lemma nat_digits_inj:
  assumes "nat_digits m = nat_digits n"
  shows "m = n"
proof -
  from assms have "digits_value (nat_digits m) = digits_value (nat_digits n)" by simp
  then show ?thesis by (simp only: digits_value_nat_digits)
qed

lemma nat_digits_chars: "CHR '':'' \<notin> set (nat_digits n) \<and> CHR ''-'' \<notin> set (nat_digits n)"
proof (induction n rule: nat_digits.induct)
  case (1 n)
  have m: "n mod 10 < 10" by simp
  show ?case
  proof (cases "n < 10")
    case True
    then show ?thesis by (subst (1 2) nat_digits.simps) (simp add: digit_char_cases)
  next
    case False
    with "1.IH" m show ?thesis by (subst (1 2) nat_digits.simps) (simp add: digit_char_cases)
  qed
qed

lemma fmt_d_no_colon: "CHR '':'' \<notin> set (fmt_d i)"
  by (simp add: fmt_d_def nat_digits_chars)

lemma nat_digits_not_minus: "nat_digits n \<noteq> CHR ''-'' # s"
  using nat_digits_chars [of n] by auto

lemma fmt_d_inj:
  assumes "fmt_d i = fmt_d j"
  shows "i = j"
proof (cases "i < 0")
  case True
  show ?thesis
  proof (cases "j < 0")
    case j: True
    with True assms have "nat_digits (nat (- i)) = nat_digits (nat (- j))"
      by (simp add: fmt_d_def)
    then have "nat (- i) = nat (- j)" by (rule nat_digits_inj)
    with True j show ?thesis by arith
  next
    case False
    with True assms show ?thesis
      using nat_digits_not_minus [of "nat j" "nat_digits (nat (- i))"] by (simp add: fmt_d_def)
  qed
next
  case False
  show ?thesis
  proof (cases "j < 0")
    case True
    with False assms show ?thesis
      using nat_digits_not_minus [of "nat i" "nat_digits (nat (- j))"] by (simp add: fmt_d_def)
  next
    case j: False
    with False assms have "nat_digits (nat i) = nat_digits (nat j)"
      by (simp add: fmt_d_def)
    then have "nat i = nat j" by (rule nat_digits_inj)
    with False j show ?thesis by arith
  qed
qed

lemma first_separator:
  "x \<notin> set xs \<Longrightarrow> x \<notin> set xs' \<Longrightarrow> xs @ x # ys = xs' @ x # ys' \<Longrightarrow> xs = xs' \<and> ys = ys'"
proof (induction xs arbitrary: xs')
  case Nil
  then show ?case by (cases xs') simp_all
next
  case step: (Cons a xs)
  show ?case
  proof (cases xs')
    case Nil
    with step.prems show ?thesis by simp
  next
    case (Cons b zs)
    with step.prems have "x \<notin> set xs" "x \<notin> set zs" "xs @ x # ys = zs @ x # ys'" "a = b"
      by simp_all
    from step.IH [OF this(1,2,3)] this(4) Cons show ?thesis by simp
  qed
qed

lemma host_port_inj:
  assumes "a @ '':'' @ fmt_d p = b @ '':'' @ fmt_d q"
  shows "a = b \<and> p = q"
proof -
  from assms have "rev (a @ '':'' @ fmt_d p) = rev (b @ '':'' @ fmt_d q)" by simp
  then have eq: "rev (fmt_d p) @ CHR '':'' # rev a = rev (fmt_d q) @ CHR '':'' # rev b"
    by simp
  have "CHR '':'' \<notin> set (rev (fmt_d p))" "CHR '':'' \<notin> set (rev (fmt_d q))"
    by (simp_all add: fmt_d_no_colon)
  from first_separator [OF this eq]
  have "rev (fmt_d p) = rev (fmt_d q) \<and> rev a = rev b" .
  then have "fmt_d p = fmt_d q" and "a = b" by simp_all
  then show ?thesis by (simp add: fmt_d_inj)
qed

lemma fmt_d_eq: "(fmt_d i = fmt_d j) = (i = j)"
  using fmt_d_inj by blast

lemma host_port_eq:
  "(a @ CHR '':'' # fmt_d p = b @ CHR '':'' # fmt_d q) = (a = b \<and> p = q)"
  using host_port_inj [of a p b q] by auto

lemma buildTCPListener_Address:
  "Listener_Address (buildTCPListener tcpConfig ip port protocol) = ''tcp://'' @ ip @ '':'' @ fmt_d port"
  by (simp add: buildTCPListener_def Let_def split: Protocol.splits list.splits)


section \<open>Wildcard listeners\<close>

lemma outboundTCPPorts_foldl:
  "outboundTCPPorts h mesh sidecar service ports st =
     foldl (\<lambda>st servicePort. outboundTCPPort h mesh sidecar service servicePort st) st ports"
  by (induction ports arbitrary: st) simp_all

lemma outboundTCPServices_foldl:
  "outboundTCPServices h mesh sidecar services st =
     foldl (\<lambda>st (service, servicePort). outboundTCPPort h mesh sidecar service servicePort st) st
       (servicePorts services)"
proof (induction services arbitrary: st)
  case Nil
  show ?case by (simp add: servicePorts_def)
next
  case (Cons service services)
  have pairs: "\<And>ports st. foldl (\<lambda>st (service, servicePort). outboundTCPPort h mesh sidecar service servicePort st) st
           (map (Pair service) ports) =
         foldl (\<lambda>st servicePort. outboundTCPPort h mesh sidecar service servicePort st) st ports"
    subgoal for ports st by (induction ports arbitrary: st) simp_all
    done
  show ?case
    using Cons.IH by (simp add: servicePorts_def outboundTCPPorts_foldl pairs)
qed

lemma outboundTCPPort_step:
  assumes "origDstInv h mesh st"
  shows "origDstInv h mesh (outboundTCPPort h mesh sidecar service servicePort st)"
    and "st_tcpListeners (outboundTCPPort h mesh sidecar service servicePort st) =
           st_tcpListeners st @
           (if wildcardPort sidecar service servicePort then
              (if Port_Port servicePort \<in> st_wildcardListenerPorts st then []
               else [wildcardListener h mesh sidecar service servicePort])
            else if tcpFamily servicePort then
              [buildTCPListener
                 \<lparr>TCP_Routes = [buildTCPRoute h
                    (buildOutboundCluster h (Hostname service) servicePort None)
                    [Service_Address service]]\<rparr>
                 (Service_Address service) (Port_Port servicePort) (Port_Protocol servicePort)]
            else [])"
    and "st_wildcardListenerPorts (outboundTCPPort h mesh sidecar service servicePort st) =
           (if wildcardPort sidecar service servicePort
            then insert (Port_Port servicePort) (st_wildcardListenerPorts st)
            else st_wildcardListenerPorts st)"
  using assms
  by (auto simp add: outboundTCPPort_def wildcardPort_def tcpFamily_def wildcardListener_def
        origDstInv_def Let_def split: option.splits)

lemma wildcardListener_Address:
  "Listener_Address (wildcardListener h mesh sidecar service servicePort) =
     ''tcp://'' @ WildcardAddress @ '':'' @ fmt_d (Port_Port servicePort)"
  by (simp add: wildcardListener_def Let_def buildTCPListener_Address)

lemma wildcardListenersOn_append:
  "wildcardListenersOn port (xs @ ys) = wildcardListenersOn port xs @ wildcardListenersOn port ys"
  by (simp add: wildcardListenersOn_def)

lemma wildcardListenersOn_Nil: "wildcardListenersOn port [] = []"
  by (simp add: wildcardListenersOn_def)

lemma wildcardListenersOn_wildcard:
  "wildcardListenersOn port [wildcardListener h mesh sidecar service servicePort] =
     (if Port_Port servicePort = port then [wildcardListener h mesh sidecar service servicePort]
      else [])"
  by (simp add: wildcardListenersOn_def wildcardListener_Address fmt_d_eq)

lemma wildcardListenersOn_vip:
  "ip \<noteq> WildcardAddress \<Longrightarrow>
   wildcardListenersOn port [buildTCPListener tcpConfig ip p protocol] = []"
  by (simp add: wildcardListenersOn_def buildTCPListener_Address host_port_eq)

lemma wildcardListenersOn_foldl:
  fixes h :: "('rule, 'mx, 'ff) helpers"
  assumes "origDstInv h mesh st"
    and "\<forall>(service, servicePort) \<in> set ps. Service_Address service \<noteq> WildcardAddress"
  shows "wildcardListenersOn port (st_tcpListeners
           (foldl (\<lambda>st (service, servicePort). outboundTCPPort h mesh sidecar service servicePort st)
              st ps)) =
         wildcardListenersOn port (st_tcpListeners st) @
         (if port \<in> st_wildcardListenerPorts st then []
          else case find (\<lambda>(service, servicePort).
                   wildcardPort sidecar service servicePort \<and> Port_Port servicePort = port) ps of
                 None \<Rightarrow> []
               | Some (service, servicePort) \<Rightarrow> [wildcardListener h mesh sidecar service servicePort])"
  using assms
proof (induction ps arbitrary: st)
  case Nil
  show ?case by simp
next
  case (Cons sp ps)
  obtain service servicePort where sp: "sp = (service, servicePort)" by (cases sp)
  let ?st = "outboundTCPPort h mesh sidecar service servicePort st"
  note step = outboundTCPPort_step [OF Cons.prems(1), of sidecar service servicePort]
  from Cons.prems(2) sp have vip: "Service_Address service \<noteq> WildcardAddress"
    and rest: "\<forall>(service, servicePort) \<in> set ps. Service_Address service \<noteq> WildcardAddress"
    by simp_all
  note IH = Cons.IH [OF step(1) rest]
  show ?case
    unfolding sp foldl_Cons prod.case IH step(2) step(3)
    by (simp add: wildcardListenersOn_append wildcardListenersOn_wildcard
          wildcardListenersOn_vip [OF vip] wildcardListenersOn_Nil)
qed

text \<open>
  Claim C4, as the code has it. Let no service have the wildcard address as its address.
  The listeners that \<^verbatim>\<open>buildOutboundTCPListeners\<close> returns at the wildcard address of a
  port are: none, when no service that is not external has a port of that number that
  asks for a wildcard listener; and otherwise exactly one, the listener built for the
  first such service and port in the order of the list. Every later port of that number
  is skipped. So two or more services without a virtual IP that are not external and
  share a TCP-family port give one wildcard listener on it.
\<close>

theorem buildOutboundTCPListeners_one_wildcard:
  fixes h :: "('rule, 'mx, 'ff) helpers"
  assumes "\<forall>service \<in> set services. Service_Address service \<noteq> WildcardAddress"
  shows "wildcardListenersOn port (fst (buildOutboundTCPListeners h mesh sidecar services)) =
     (case find (\<lambda>(service, servicePort).
              wildcardPort sidecar service servicePort \<and> Port_Port servicePort = port)
            (servicePorts services) of
        None \<Rightarrow> []
      | Some (service, servicePort) \<Rightarrow> [wildcardListener h mesh sidecar service servicePort])"
proof -
  have "\<forall>(service, servicePort) \<in> set (servicePorts services).
          Service_Address service \<noteq> WildcardAddress"
    using assms by (auto simp add: servicePorts_def split: if_splits)
  moreover have "origDstInv h mesh
     \<lparr>st_tcpListeners = [], st_tcpClusters = [], st_originalDstCluster = None,
      st_wildcardListenerPorts = {}\<rparr>"
    by (simp add: origDstInv_def)
  ultimately show ?thesis
    unfolding buildOutboundTCPListeners_def Let_def fst_conv outboundTCPServices_foldl
    by (subst wildcardListenersOn_foldl) (simp_all add: wildcardListenersOn_def)
qed

theorem buildOutboundTCPListeners_one_wildcard_witness:
  "wildcardListenersOn 90
     (fst (buildOutboundTCPListeners testHelpers testMesh HelloProxyV0
        [MakeService ''alpha.default.svc.cluster.local'' [],
         MakeService ''beta.default.svc.cluster.local'' []])) =
   [buildTCPListener
      \<lparr>TCP_Routes = [buildTCPRoute testHelpers (testCluster ''alpha.default.svc.cluster.local'') []]\<rparr>
      WildcardAddress 90 ProtocolTCP]"
  using buildOutboundTCPListeners_one_wildcard [of "[MakeService ''alpha.default.svc.cluster.local'' [],
                 MakeService ''beta.default.svc.cluster.local'' []]"
              90 testHelpers testMesh HelloProxyV0]
  by (simp add: MakeService_def servicePorts_def External_def wildcardPort_def tcpFamily_def
        PortHTTP_def wildcardListener_def WildcardAddress_def HelloProxyV0_def testHelpers_def Let_def)


text \<open>
  Two address-less services that declare the HTTPS port 443 and are external: both are
  skipped, and no listener is built at all, so there is no wildcard listener on 443 where
  claim C4 states one.
\<close>

theorem buildOutboundTCPListeners_external_skipped:
  "Service_Address ExtHTTPSService = [] \<and>
   Service_Address
     (MakeExternalHTTPSService ''httpsbin2.default.svc.cluster.local'' ''example.org'' []) = [] \<and>
   map Port_Port (Service_Ports ExtHTTPSService) = [443] \<and>
   map Port_Protocol (Service_Ports ExtHTTPSService) = [ProtocolHTTPS] \<and>
   map Port_Port (Service_Ports
     (MakeExternalHTTPSService ''httpsbin2.default.svc.cluster.local'' ''example.org'' [])) = [443] \<and>
   map Port_Protocol (Service_Ports
     (MakeExternalHTTPSService ''httpsbin2.default.svc.cluster.local'' ''example.org'' [])) =
     [ProtocolHTTPS] \<and>
   (buildOutboundTCPListeners testHelpers testMesh HelloProxyV0
      [ExtHTTPSService,
       MakeExternalHTTPSService ''httpsbin2.default.svc.cluster.local'' ''example.org'' []]
     :: (unit, unit) Listener list \<times> Cluster list) = ([], [])"
  by (simp add: buildOutboundTCPListeners_def ExtHTTPSService_def MakeExternalHTTPSService_def
        External_def Let_def)

text \<open>
  The hypothesis on the addresses cannot be dropped: a load-balanced service whose address
  is the wildcard address gets its listener from the branch that does not look at
  \<^verbatim>\<open>wildcardListenerPorts\<close>.
\<close>

lemma buildOutboundTCPListeners_wildcard_address_service:
  "map Listener_Name
     (wildcardListenersOn 90
        (fst (buildOutboundTCPListeners testHelpers testMesh HelloProxyV0
           [MakeService ''alpha.default.svc.cluster.local'' [],
            MakeService ''beta.default.svc.cluster.local'' ''0.0.0.0'']))) =
   [''tcp_0.0.0.0_90'', ''tcp_0.0.0.0_90'']"
  by (simp add: buildOutboundTCPListeners_def outboundTCPPort_def buildTCPListener_def
        wildcardListenersOn_def MakeService_def PortHTTP_def External_def HelloProxyV0_def
        WildcardAddress_def testHelpers_def fmt_d_def nat_digits.simps digit_char_def Let_def)

section \<open>Errors of the service registry\<close>

text \<open>
  Claim C5. When \<^verbatim>\<open>HostInstances\<close> returns an error, \<^verbatim>\<open>buildListeners\<close> and
  \<^verbatim>\<open>buildClusters\<close> return that error (and the discovery endpoint answers 503); when
  \<^verbatim>\<open>HostInstances\<close> succeeds and \<^verbatim>\<open>Services\<close>, which a sidecar or a router calls next,
  returns an error, they return that error and no listener or cluster. When both calls
  succeed the result is the whole configuration of the node, and a result without an
  error comes from calls that all returned without one: no error is left out, and no
  part of a configuration is returned as a success.
\<close>

theorem buildListeners_buildClusters_errors:
  fixes h :: "('rule, 'mx, 'ff) helpers" and env :: "'rule Environment" and node
  defines "discovery \<equiv> Env_ServiceDiscovery env"
  defines "hostInstances \<equiv> HostInstances discovery {IPAddress node}"
  shows
   "(\<forall>e. snd hostInstances = Some e \<longrightarrow>
       fst (buildListeners h env node) = [] \<and>
       snd (buildListeners h env node) = Some e \<and> snd (buildClusters h env node) = Some e \<and>
       discoveryStatus (buildListeners h env node) = 503 \<and>
       discoveryStatus (buildClusters h env node) = 503) \<and>
    (\<forall>e. Node_Type node \<noteq> Ingress \<and> snd hostInstances = None \<and> snd (Services discovery) = Some e \<longrightarrow>
       buildListeners h env node = ([], Some e) \<and> buildClusters h env node = ([], Some e) \<and>
       discoveryStatus (buildListeners h env node) = 503 \<and>
       discoveryStatus (buildClusters h env node) = 503) \<and>
    (Node_Type node \<noteq> Ingress \<and> snd hostInstances = None \<and> snd (Services discovery) = None \<longrightarrow>
       buildListeners h env node =
         (fst (buildSidecarListenersClusters h (Mesh env) (fst hostInstances)
                 (fst (Services discovery)) (ManagementPorts discovery (IPAddress node)) node
                 (Env_IstioConfigStore env)), None) \<and>
       buildClusters h env node =
         (finishClusters h env node (fst hostInstances)
            (snd (buildSidecarListenersClusters h (Mesh env) (fst hostInstances)
                 (fst (Services discovery)) (ManagementPorts discovery (IPAddress node)) node
                 (Env_IstioConfigStore env))), None)) \<and>
    (Node_Type node = Ingress \<and> snd hostInstances = None \<longrightarrow>
       buildListeners h env node =
         (buildIngressListeners h (Mesh env) (fst hostInstances) discovery
            (Env_IstioConfigStore env) node, None) \<and>
       buildClusters h env node =
         (finishClusters h env node (fst hostInstances)
            (Clusters_normalize h (HTTPRouteConfigs_clusters h
               (buildIngressRoutes h (Mesh env) (fst hostInstances) discovery
                  (Env_IstioConfigStore env)))), None)) \<and>
    ((snd (buildListeners h env node) = None) =
       (snd hostInstances = None \<and> (Node_Type node = Ingress \<or> snd (Services discovery) = None))) \<and>
    ((snd (buildClusters h env node) = None) =
       (snd hostInstances = None \<and> (Node_Type node = Ingress \<or> snd (Services discovery) = None)))"
  unfolding discovery_def hostInstances_def
  by (cases "Node_Type node";
      cases "HostInstances (Env_ServiceDiscovery env) {IPAddress node}";
      cases "Services (Env_ServiceDiscovery env)";
      cases "snd (HostInstances (Env_ServiceDiscovery env) {IPAddress node})";
      cases "snd (Services (Env_ServiceDiscovery env))")
     (simp_all add: buildListeners_def buildClusters_def discoveryStatus_def Let_def
        split: prod.splits)

theorem buildListeners_buildClusters_errors_witness:
  "snd (buildClusters testHelpers
     (testEnvironment None (Some (Error ''mock HostInstances() error''))) HelloProxyV0) =
     Some (Error ''mock HostInstances() error'') \<and>
   buildListeners testHelpers
     (testEnvironment (Some (Error ''mock Services() error'')) None) HelloProxyV0 =
     ([], Some (Error ''mock Services() error'')) \<and>
   discoveryStatus (buildClusters testHelpers
     (testEnvironment None (Some (Error ''mock HostInstances() error''))) HelloProxyV0) = 503 \<and>
   snd (buildListeners testHelpers (testEnvironment None None) HelloProxyV0) = None"
  using
    buildListeners_buildClusters_errors [of "testEnvironment None (Some (Error ''mock HostInstances() error''))" HelloProxyV0 testHelpers]
    buildListeners_buildClusters_errors [of "testEnvironment (Some (Error ''mock Services() error'')) None" HelloProxyV0 testHelpers]
    buildListeners_buildClusters_errors [of "testEnvironment None None" HelloProxyV0 testHelpers]
  by (simp add: testEnvironment_def testDiscovery_def HelloProxyV0_def)

section \<open>The listeners of a sidecar\<close>

lemma GetByAddress_None:
  "(GetByAddress listeners addr = None) = (addr \<notin> Listener_Address ` set listeners)"
  by (auto simp add: GetByAddress_def find_None_iff)

lemma appendMgmtListeners_kept:
  "\<exists>kept. appendMgmtListeners zs (listeners, clusters) =
            (listeners @ map fst kept, clusters @ map snd kept) \<and>
          subseq kept zs \<and>
          (\<forall>z \<in> set zs. (Listener_Address (fst z) \<in> Listener_Address ` fst ` set kept) =
                          (Listener_Address (fst z) \<notin> Listener_Address ` set listeners)) \<and>
          (\<forall>k \<in> set kept. Listener_Address (fst k) \<notin> Listener_Address ` set listeners)"
proof (induction zs arbitrary: listeners clusters)
  case Nil
  show ?case by simp
next
  case (Cons z zs)
  obtain m c where z: "z = (m, c)" by (cases z)
  show ?case
  proof (cases "GetByAddress listeners (Listener_Address m)")
    case (Some l)
    then have coll: "Listener_Address m \<in> Listener_Address ` set listeners"
      using GetByAddress_None [of listeners "Listener_Address m"] by simp
    from Cons.IH [of listeners clusters] obtain kept where
      k: "appendMgmtListeners zs (listeners, clusters) =
            (listeners @ map fst kept, clusters @ map snd kept)"
        "subseq kept zs"
        "\<forall>z \<in> set zs. (Listener_Address (fst z) \<in> Listener_Address ` fst ` set kept) =
                          (Listener_Address (fst z) \<notin> Listener_Address ` set listeners)"
        "\<forall>k \<in> set kept. Listener_Address (fst k) \<notin> Listener_Address ` set listeners"
      by blast
    have "Listener_Address m \<notin> Listener_Address ` fst ` set kept"
      using k(4) coll by auto
    with k coll Some z show ?thesis
      by (intro exI [of _ kept]) (simp add: list_emb_Cons)
  next
    case None
    then have free: "Listener_Address m \<notin> Listener_Address ` set listeners"
      using GetByAddress_None [of listeners "Listener_Address m"] by simp
    from Cons.IH [of "listeners @ [m]" "clusters @ [c]"] obtain kept where
      k: "appendMgmtListeners zs (listeners @ [m], clusters @ [c]) =
            ((listeners @ [m]) @ map fst kept, (clusters @ [c]) @ map snd kept)"
        "subseq kept zs"
        "\<forall>z \<in> set zs. (Listener_Address (fst z) \<in> Listener_Address ` fst ` set kept) =
                          (Listener_Address (fst z) \<notin> Listener_Address ` set (listeners @ [m]))"
        "\<forall>k \<in> set kept. Listener_Address (fst k) \<notin> Listener_Address ` set (listeners @ [m])"
      by blast
    have 1: "appendMgmtListeners (z # zs) (listeners, clusters) =
               (listeners @ map fst ((m, c) # kept), clusters @ map snd ((m, c) # kept))"
      using k(1) None z by simp
    have 2: "subseq ((m, c) # kept) (z # zs)"
      using k(2) z by simp
    have 3: "\<forall>y \<in> set (z # zs).
               (Listener_Address (fst y) \<in> Listener_Address ` fst ` set ((m, c) # kept)) =
               (Listener_Address (fst y) \<notin> Listener_Address ` set listeners)"
    proof
      fix y assume y: "y \<in> set (z # zs)"
      show "(Listener_Address (fst y) \<in> Listener_Address ` fst ` set ((m, c) # kept)) =
            (Listener_Address (fst y) \<notin> Listener_Address ` set listeners)"
      proof (cases "Listener_Address (fst y) = Listener_Address m")
        case True
        with free show ?thesis by simp
      next
        case False
        with y z have "y \<in> set zs" by auto
        with k(3) False show ?thesis by simp
      qed
    qed
    have 4: "\<forall>k \<in> set ((m, c) # kept). Listener_Address (fst k) \<notin> Listener_Address ` set listeners"
      using k(4) free by simp
    from 1 2 3 4 show ?thesis by blast
  qed
qed

lemma appendMgmtListeners_filter:
  assumes "distinct (map (\<lambda>z. Listener_Address (fst z)) zs)"
    and "\<forall>z \<in> set zs. (Listener_Address (fst z) \<in> Listener_Address ` set listeners) =
                          (Listener_Address (fst z) \<in> Listener_Address ` set base)"
  shows "appendMgmtListeners zs (listeners, clusters) =
     (listeners @ map fst (filter (\<lambda>z. Listener_Address (fst z) \<notin> Listener_Address ` set base) zs),
      clusters @ map snd (filter (\<lambda>z. Listener_Address (fst z) \<notin> Listener_Address ` set base) zs))"
  using assms
proof (induction zs arbitrary: listeners clusters)
  case Nil
  show ?case by simp
next
  case (Cons z zs)
  obtain m c where z: "z = (m, c)" by (cases z)
  from Cons.prems(1) z have d: "distinct (map (\<lambda>z. Listener_Address (fst z)) zs)"
    and notin: "Listener_Address m \<notin> (\<lambda>z. Listener_Address (fst z)) ` set zs"
    by simp_all
  from notin have fresh: "\<forall>y \<in> set zs. Listener_Address (fst y) \<noteq> Listener_Address m"
    by force
  show ?case
  proof (cases "Listener_Address m \<in> Listener_Address ` set listeners")
    case True
    then obtain l where "GetByAddress listeners (Listener_Address m) = Some l"
      using GetByAddress_None [of listeners "Listener_Address m"] by auto
    moreover from True Cons.prems(2) z have "Listener_Address m \<in> Listener_Address ` set base"
      by simp
    moreover have "\<forall>z \<in> set zs. (Listener_Address (fst z) \<in> Listener_Address ` set listeners) =
                          (Listener_Address (fst z) \<in> Listener_Address ` set base)"
      using Cons.prems(2) by simp
    ultimately show ?thesis
      using Cons.IH [OF d, of listeners clusters] z by simp
  next
    case False
    then have none: "GetByAddress listeners (Listener_Address m) = None"
      using GetByAddress_None [of listeners "Listener_Address m"] by simp
    from False Cons.prems(2) z have nb: "Listener_Address m \<notin> Listener_Address ` set base"
      by simp
    have "\<forall>z \<in> set zs. (Listener_Address (fst z) \<in> Listener_Address ` set (listeners @ [m])) =
                          (Listener_Address (fst z) \<in> Listener_Address ` set base)"
      using Cons.prems(2) fresh by auto
    from Cons.IH [OF d this, of "clusters @ [c]"] none nb z show ?thesis by simp
  qed
qed

lemma mgmtPorts_lengths:
  "length listeners = length clusters \<Longrightarrow>
   length (fst (mgmtPorts h mesh managementIP ports (listeners, clusters))) =
   length (snd (mgmtPorts h mesh managementIP ports (listeners, clusters)))"
  by (induction ports arbitrary: listeners clusters) (simp_all add: Let_def)

lemma buildMgmtPortListeners_lengths:
  "length (fst (buildMgmtPortListeners h mesh managementPorts managementIP)) =
   length (snd (buildMgmtPortListeners h mesh managementPorts managementIP))"
  by (simp add: buildMgmtPortListeners_def mgmtPorts_lengths)

lemma sidecar_listeners:
  fixes h :: "('rule, 'mx, 'ff) helpers"
  assumes "Node_Type node \<noteq> Router" and "ProxyListenPort mesh > 0"
  shows "buildSidecarListenersClusters h mesh instances services managementPorts node config =
    (let sorted = sort_key Hostname services;
         inbound = buildInboundListeners h mesh node instances config;
         outbound = buildOutboundListeners h mesh node instances sorted config;
         mgmt = buildMgmtPortListeners h mesh managementPorts (IPAddress node);
         appended = appendMgmtListeners (zip (fst mgmt) (snd mgmt))
                      (fst inbound @ fst outbound, snd inbound @ snd outbound)
     in (Listeners_normalize
           (map (\<lambda>listener. listener\<lparr>BindToPort := False\<rparr>) (fst appended) @
            [virtualListener mesh] @
            (if ProxyHttpPort mesh > 0 then [httpProxyListener h mesh node instances config]
             else [])),
         Clusters_normalize h
           (snd appended @
            (if ProxyHttpPort mesh > 0 then
               HTTPRouteConfigs_clusters h
                 (buildEgressHTTPRoutes h mesh node instances config
                    (buildOutboundHTTPRoutes h mesh node instances sorted config))
             else []))))"
  using assms
  by (simp add: buildSidecarListenersClusters_def httpProxyListener_def Let_def split: prod.splits)

lemma subseq_subset: "subseq xs ys \<Longrightarrow> set xs \<subseteq> set ys"
  by (auto elim: list_emb_set)

lemma buildTCPListener_flags:
  "\<not> UseOriginalDst (buildTCPListener tcpConfig ip port protocol) \<and>
   \<not> BindToPort (buildTCPListener tcpConfig ip port protocol)"
  by (simp add: buildTCPListener_def Let_def split: Protocol.splits list.splits)

lemma buildHTTPListener_flags:
  "\<not> UseOriginalDst
       (buildHTTPListener h mesh node instances routeConfig ip port rds useRemoteAddress direction store) \<and>
   BindToPort
     (buildHTTPListener h mesh node instances routeConfig ip port rds useRemoteAddress direction store)"
  by (simp add: buildHTTPListener_def Let_def)

lemma inboundListener_UseOriginalDst:
  "inboundListener h mesh sidecar instances config instance = (cluster, Some listener) \<Longrightarrow>
   \<not> UseOriginalDst listener"
  by (auto simp add: inboundListener_def Let_def mayApplyInboundAuth_def
        buildTCPListener_flags buildHTTPListener_flags split: if_splits)

lemma inboundInstances_UseOriginalDst:
  "\<forall>l \<in> set listeners. \<not> UseOriginalDst l \<Longrightarrow>
   \<forall>l \<in> set (fst (inboundInstances h mesh sidecar instances config rest (listeners, clusters))).
     \<not> UseOriginalDst l"
proof (induction rest arbitrary: listeners clusters)
  case Nil
  then show ?case by simp
next
  case (Cons inst rest)
  obtain cluster listener where
    step: "inboundListener h mesh sidecar instances config inst = (cluster, listener)"
    by (cases "inboundListener h mesh sidecar instances config inst")
  show ?case
  proof (cases listener)
    case None
    with step Cons.IH [OF Cons.prems] show ?thesis by simp
  next
    case (Some l)
    with step have "\<not> UseOriginalDst l" by (simp add: inboundListener_UseOriginalDst)
    with Cons.prems have "\<forall>x \<in> set (listeners @ [l]). \<not> UseOriginalDst x" by simp
    from Cons.IH [OF this] step Some show ?thesis by simp
  qed
qed

lemma buildInboundListeners_UseOriginalDst:
  "\<forall>l \<in> set (fst (buildInboundListeners h mesh sidecar instances config)). \<not> UseOriginalDst l"
  unfolding buildInboundListeners_def by (rule inboundInstances_UseOriginalDst) simp

lemma outboundTCPPort_UseOriginalDst:
  "\<forall>l \<in> set (st_tcpListeners st). \<not> UseOriginalDst l \<Longrightarrow>
   \<forall>l \<in> set (st_tcpListeners (outboundTCPPort h mesh sidecar service servicePort st)).
     \<not> UseOriginalDst l"
  by (auto simp add: outboundTCPPort_def Let_def buildTCPListener_flags split: option.splits)

lemma outboundTCP_foldl_UseOriginalDst:
  "\<forall>l \<in> set (st_tcpListeners st). \<not> UseOriginalDst l \<Longrightarrow>
   \<forall>l \<in> set (st_tcpListeners
       (foldl (\<lambda>st (service, servicePort). outboundTCPPort h mesh sidecar service servicePort st)
          st ps)). \<not> UseOriginalDst l"
proof (induction ps arbitrary: st)
  case Nil
  then show ?case by simp
next
  case (Cons sp ps)
  obtain service servicePort where sp: "sp = (service, servicePort)" by (cases sp)
  from Cons.IH [OF outboundTCPPort_UseOriginalDst [OF Cons.prems, of h mesh sidecar service servicePort]]
  show ?case by (simp add: sp)
qed

lemma buildOutboundTCPListeners_UseOriginalDst:
  "\<forall>l \<in> set (fst (buildOutboundTCPListeners h mesh sidecar services)). \<not> UseOriginalDst l"
  unfolding buildOutboundTCPListeners_def Let_def fst_conv outboundTCPServices_foldl
  by (rule outboundTCP_foldl_UseOriginalDst) simp

lemma egressTCPPortListeners_UseOriginalDst:
  "\<forall>l \<in> set tcpListeners. \<not> UseOriginalDst l \<Longrightarrow>
   \<forall>l \<in> set (fst (egressTCPPortListeners h mesh tcpProtocolByPort entries (tcpListeners, tcpClusters))).
     \<not> UseOriginalDst l"
proof (induction entries arbitrary: tcpListeners tcpClusters)
  case Nil
  then show ?case by simp
next
  case (Cons entry entries)
  obtain intPort rules where entry: "entry = (intPort, rules)" by (cases entry)
  define protocol where
    "protocol = (case tcpProtocolByPort intPort of Some p \<Rightarrow> p | None \<Rightarrow> ProtocolOther [])"
  obtain tcpRoutes clusters where
    routes: "egressTCPRoutes h mesh (egressModelPort h protocol intPort) rules ([], tcpClusters) =
               (tcpRoutes, clusters)"
    by (cases "egressTCPRoutes h mesh (egressModelPort h protocol intPort) rules ([], tcpClusters)")
  have "\<forall>l \<in> set (tcpListeners @
           [buildTCPListener \<lparr>TCP_Routes = tcpRoutes\<rparr> WildcardAddress intPort protocol]).
          \<not> UseOriginalDst l"
    using Cons.prems by (simp add: buildTCPListener_flags)
  from Cons.IH [OF this, of clusters] show ?case
    unfolding entry by (simp add: Let_def routes protocol_def [symmetric])
qed

lemma buildEgressTCPListeners_UseOriginalDst:
  "\<forall>l \<in> set (fst (buildEgressTCPListeners h mesh node config)). \<not> UseOriginalDst l"
proof (cases "Node_Type node = Router")
  case True
  then show ?thesis by (simp add: buildEgressTCPListeners_def)
next
  case False
  obtain tcpRulesByPort tcpProtocolByPort where
    "egressTCPRules h (RejectConflictingEgressRules h (EgressRules config)) ([], Map.empty) =
       (tcpRulesByPort, tcpProtocolByPort)"
    by (cases "egressTCPRules h (RejectConflictingEgressRules h (EgressRules config)) ([], Map.empty)")
  with False
    egressTCPPortListeners_UseOriginalDst [of "[]" h mesh tcpProtocolByPort tcpRulesByPort "[]"]
  show ?thesis by (simp add: buildEgressTCPListeners_def Let_def)
qed

lemma outboundHTTPListeners_UseOriginalDst:
  "\<forall>l \<in> set listeners. \<not> UseOriginalDst l \<Longrightarrow>
   \<forall>l \<in> set (fst (outboundHTTPListeners h mesh sidecar instances config httpOutbound
                     (listeners, clusters))). \<not> UseOriginalDst l"
proof (induction httpOutbound arbitrary: listeners clusters)
  case Nil
  then show ?case by simp
next
  case (Cons entry httpOutbound)
  obtain port routeConfig where entry: "entry = (port, routeConfig)" by (cases entry)
  define l where
    "l = buildHTTPListener h mesh sidecar instances (Some routeConfig) WildcardAddress port
           (fmt_d port) (Node_Type sidecar = Router)
           (if Node_Type sidecar = Router then IngressTraceOperation else EgressTraceOperation)
           config"
  have "\<forall>x \<in> set (listeners @ [l]). \<not> UseOriginalDst x"
    using Cons.prems by (simp add: l_def buildHTTPListener_flags)
  from Cons.IH [OF this, of "clusters @ HTTPRouteConfig_clusters h routeConfig"] show ?case
    unfolding entry by (simp add: Let_def l_def [symmetric] split del: if_split)
qed

lemma buildOutboundListeners_UseOriginalDst:
  "\<forall>l \<in> set (fst (buildOutboundListeners h mesh sidecar instances services config)).
     \<not> UseOriginalDst l"
proof -
  obtain listeners clusters where
    tcp: "buildOutboundTCPListeners h mesh sidecar services = (listeners, clusters)"
    by (cases "buildOutboundTCPListeners h mesh sidecar services")
  obtain egressTCPListeners egressTCPClusters where
    egress: "buildEgressTCPListeners h mesh sidecar config = (egressTCPListeners, egressTCPClusters)"
    by (cases "buildEgressTCPListeners h mesh sidecar config")
  have "\<forall>l \<in> set (listeners @ egressTCPListeners). \<not> UseOriginalDst l"
    using buildOutboundTCPListeners_UseOriginalDst [of h mesh sidecar services]
      buildEgressTCPListeners_UseOriginalDst [of h mesh sidecar config]
    by (simp add: tcp egress ball_Un)
  from outboundHTTPListeners_UseOriginalDst [OF this] show ?thesis
    by (simp add: buildOutboundListeners_def Let_def tcp egress)
qed

lemma mgmtPorts_flags:
  fixes listeners :: "('mx, 'ff) Listener list"
  shows "\<forall>l \<in> set listeners. \<not> UseOriginalDst l \<and> \<not> BindToPort l \<Longrightarrow>
   \<forall>l \<in> set (fst (mgmtPorts h mesh managementIP ports (listeners, clusters))).
     \<not> UseOriginalDst l \<and> \<not> BindToPort l"
proof (induction ports arbitrary: listeners clusters)
  case Nil
  then show ?case by simp
next
  case (Cons mPort ports)
  define l :: "('mx, 'ff) Listener" where
    "l = buildTCPListener
           \<lparr>TCP_Routes = [buildTCPRoute h
              (buildInboundCluster h (Port_Port mPort) ProtocolTCP (ConnectTimeout mesh))
              [managementIP]]\<rparr>
           managementIP (Port_Port mPort) ProtocolTCP"
  have "\<forall>x \<in> set (listeners @ [l]). \<not> UseOriginalDst x \<and> \<not> BindToPort x"
    using Cons.prems by (simp add: l_def buildTCPListener_flags)
  note yes = Cons.IH [OF this]
  note no = Cons.IH [OF Cons.prems]
  show ?case
  proof (cases "Port_Protocol mPort = ProtocolHTTP \<or> Port_Protocol mPort = ProtocolHTTP2 \<or>
           Port_Protocol mPort = ProtocolGRPC \<or> Port_Protocol mPort = ProtocolTCP \<or>
           Port_Protocol mPort = ProtocolHTTPS \<or> Port_Protocol mPort = ProtocolMongo \<or>
           Port_Protocol mPort = ProtocolRedis")
    case True
    then have "mgmtPorts h mesh managementIP (mPort # ports) (listeners, clusters) =
      mgmtPorts h mesh managementIP ports (listeners @ [l],
        clusters @ [buildInboundCluster h (Port_Port mPort) ProtocolTCP (ConnectTimeout mesh)])"
      unfolding mgmtPorts.simps Let_def l_def by (simp only: if_True)
    with yes show ?thesis by simp
  next
    case False
    then have "mgmtPorts h mesh managementIP (mPort # ports) (listeners, clusters) =
      mgmtPorts h mesh managementIP ports (listeners, clusters)"
      unfolding mgmtPorts.simps Let_def by (simp only: if_False)
    with no show ?thesis by simp
  qed
qed

lemma buildMgmtPortListeners_flags:
  "\<forall>l \<in> set (fst (buildMgmtPortListeners h mesh managementPorts managementIP)).
     \<not> UseOriginalDst l \<and> \<not> BindToPort l"
  unfolding buildMgmtPortListeners_def by (rule mgmtPorts_flags) simp

lemma set_Listeners_normalize: "set (Listeners_normalize listeners) = set listeners"
  by (simp add: Listeners_normalize_def)

lemma filter_Listeners_normalize:
  "filter P (Listeners_normalize listeners) = Listeners_normalize (filter P listeners)"
  by (simp add: Listeners_normalize_def filter_sort)

lemma Listeners_normalize_single: "Listeners_normalize [l] = [l]"
  by (simp add: Listeners_normalize_def)

text \<open>
  The definitions that evaluate the builders on the fixtures.
\<close>

lemmas fixture_defs =
  buildSidecarListenersClusters_def buildInboundListeners_def inboundListener_def
  buildOutboundListeners_def buildOutboundTCPListeners_def outboundTCPPort_def
  buildEgressTCPListeners_def buildOutboundHTTPRoutes_def buildEgressHTTPRoutes_def
  buildDestinationHTTPRoutes_def buildMgmtPortListeners_def buildHTTPListener_def
  buildTCPListener_def mayApplyInboundAuth_def consolidateAuthPolicy_def
  virtualListener_def Listeners_normalize_def GetByAddress_def EnsurePort_def
  appendVirtualHost_def External_def
  testHelpers_def testMesh_def testStore_def testCluster_def testRoute_def
  HelloProxyV0_def HelloService_def MakeService_def PortHTTP_def helloInstanceV0_def
  WildcardAddress_def LocalhostAddress_def fmt_d_def nat_digits.simps digit_char_def Let_def

text \<open>
  Claim C6, as the code has it. For a node that is no router and a positive
  \<^verbatim>\<open>mesh.ProxyListenPort\<close>, the listeners that \<^verbatim>\<open>buildSidecarListenersClusters\<close>
  returns hold exactly one listener with \<^verbatim>\<open>UseOriginalDst\<close>: the virtual listener at
  \<^verbatim>\<open>tcp://0.0.0.0:<ProxyListenPort>\<close>, which binds to its port. Every other listener has
  \<^verbatim>\<open>BindToPort = false\<close>, except the listener of the HTTP proxy port, which is added
  after the loop that clears the flag, is present exactly when \<^verbatim>\<open>mesh.ProxyHttpPort\<close> is
  positive, and binds to its port.
\<close>

theorem sidecar_virtual_listener:
  fixes h :: "('rule, 'mx, 'ff) helpers" and mesh node instances services managementPorts
    and config :: "'rule IstioConfigStore"
  assumes "Node_Type node \<noteq> Router" and "ProxyListenPort mesh > 0"
  defines "listeners \<equiv>
    fst (buildSidecarListenersClusters h mesh instances services managementPorts node config)"
  shows "filter UseOriginalDst listeners = [virtualListener mesh] \<and>
    virtualListener mesh =
      \<lparr>Listener_Address = ''tcp://0.0.0.0:'' @ fmt_d (ProxyListenPort mesh),
       Listener_Name = VirtualListenerName, Listener_Filters = [], Listener_SSLContext = None,
       BindToPort = True, UseOriginalDst = True\<rparr> \<and>
    (\<forall>l \<in> set listeners. BindToPort l \<longrightarrow>
       l = virtualListener mesh \<or>
       (ProxyHttpPort mesh > 0 \<and> l = httpProxyListener h mesh node instances config)) \<and>
    (ProxyHttpPort mesh > 0 \<longrightarrow>
       httpProxyListener h mesh node instances config \<in> set listeners \<and>
       BindToPort (httpProxyListener h mesh node instances config) \<and>
       httpProxyListener h mesh node instances config \<noteq> virtualListener mesh)"
proof -
  define ordered where "ordered = sort_key Hostname services"
  define inbound where "inbound = buildInboundListeners h mesh node instances config"
  define outbound where "outbound = buildOutboundListeners h mesh node instances ordered config"
  define mgmt where "mgmt = buildMgmtPortListeners h mesh managementPorts (IPAddress node)"
  define proxy where "proxy =
    (if ProxyHttpPort mesh > 0 then [httpProxyListener h mesh node instances config] else [])"
  let ?zs = "zip (fst mgmt) (snd mgmt)"
  from appendMgmtListeners_kept [of ?zs "fst inbound @ fst outbound" "snd inbound @ snd outbound"]
  obtain kept where
    k: "appendMgmtListeners ?zs (fst inbound @ fst outbound, snd inbound @ snd outbound) =
          ((fst inbound @ fst outbound) @ map fst kept, (snd inbound @ snd outbound) @ map snd kept)"
       "subseq kept ?zs"
    by blast
  define built where "built = (fst inbound @ fst outbound) @ map fst kept"
  have shape: "listeners =
      Listeners_normalize
        (map (\<lambda>listener. listener\<lparr>BindToPort := False\<rparr>) built @ [virtualListener mesh] @ proxy)"
    unfolding listeners_def sidecar_listeners [OF assms(1,2)] Let_def built_def proxy_def
      ordered_def [symmetric] inbound_def [symmetric] outbound_def [symmetric] mgmt_def [symmetric]
    by (simp only: k(1) fst_conv)
  have "fst ` set kept \<subseteq> set (fst mgmt)"
  proof
    fix m assume "m \<in> fst ` set kept"
    then obtain z where z: "m = fst z" "z \<in> set kept" by (rule imageE)
    with subseq_subset [OF k(2)] have "z \<in> set ?zs" by blast
    then have "(fst z, snd z) \<in> set (zip (fst mgmt) (snd mgmt))" by simp
    then show "m \<in> set (fst mgmt)" unfolding z(1) by (rule set_zip_leftD)
  qed
  then have keptU: "\<forall>l \<in> set (map fst kept). \<not> UseOriginalDst l"
    using buildMgmtPortListeners_flags [of h mesh managementPorts "IPAddress node"]
    unfolding mgmt_def by auto
  have builtU: "\<forall>l \<in> set built. \<not> UseOriginalDst l"
    using keptU buildInboundListeners_UseOriginalDst [of h mesh node instances config]
      buildOutboundListeners_UseOriginalDst [of h mesh node instances ordered config]
    unfolding built_def inbound_def outbound_def by (simp add: ball_Un)
  have proxyF: "\<forall>l \<in> set proxy. \<not> UseOriginalDst l \<and> BindToPort l"
    by (simp add: proxy_def httpProxyListener_def buildHTTPListener_flags)
  have virt: "UseOriginalDst (virtualListener mesh)" "BindToPort (virtualListener mesh)"
    by (simp_all add: virtualListener_def)
  have f1: "filter UseOriginalDst (map (\<lambda>listener. listener\<lparr>BindToPort := False\<rparr>) built) = []"
    using builtU by (simp add: filter_empty_conv)
  have f2: "filter UseOriginalDst proxy = []"
    using proxyF by (simp add: filter_empty_conv)
  have 1: "filter UseOriginalDst listeners = [virtualListener mesh]"
    unfolding shape filter_Listeners_normalize filter_append f1 f2
    by (simp add: virt Listeners_normalize_single)
  have 2: "virtualListener mesh =
      \<lparr>Listener_Address = ''tcp://0.0.0.0:'' @ fmt_d (ProxyListenPort mesh),
       Listener_Name = VirtualListenerName, Listener_Filters = [], Listener_SSLContext = None,
       BindToPort = True, UseOriginalDst = True\<rparr>"
    by (simp add: virtualListener_def WildcardAddress_def)
  have 3: "\<forall>l \<in> set listeners. BindToPort l \<longrightarrow>
       l = virtualListener mesh \<or>
       (ProxyHttpPort mesh > 0 \<and> l = httpProxyListener h mesh node instances config)"
    unfolding shape set_Listeners_normalize by (auto simp add: proxy_def split: if_splits)
  have 4: "ProxyHttpPort mesh > 0 \<longrightarrow>
       httpProxyListener h mesh node instances config \<in> set listeners \<and>
       BindToPort (httpProxyListener h mesh node instances config) \<and>
       httpProxyListener h mesh node instances config \<noteq> virtualListener mesh"
    unfolding shape set_Listeners_normalize
    using proxyF virt by (auto simp add: proxy_def)
  from 1 2 3 4 show ?thesis by blast
qed


theorem sidecar_virtual_listener_witness:
  "map (\<lambda>l. (Listener_Address l, BindToPort l, UseOriginalDst l))
     (fst (buildSidecarListenersClusters testHelpers testMesh [helloInstanceV0] [HelloService]
             mockManagementPorts HelloProxyV0 (testStore []))) =
   [(''tcp://0.0.0.0:15001'', True, True), (''tcp://0.0.0.0:80'', False, False),
    (''tcp://0.0.0.0:81'', False, False), (''tcp://10.1.0.0:100'', False, False),
    (''tcp://10.1.0.0:110'', False, False), (''tcp://10.1.0.0:90'', False, False),
    (''tcp://10.1.1.0:3333'', False, False), (''tcp://10.1.1.0:80'', False, False),
    (''tcp://10.1.1.0:9999'', False, False)]"
  using sidecar_virtual_listener [where h = testHelpers and mesh = testMesh
    and node = HelloProxyV0 and instances = "[helloInstanceV0]" and services = "[HelloService]"
    and managementPorts = mockManagementPorts and config = "testStore []"]
  by (simp add: fixture_defs mockManagementPorts_def)

text \<open>
  With both ports set, the returned listeners are the virtual listener and the listener
  of the HTTP proxy port on 127.0.0.1, and the second one binds to its port too: "every
  other listener has BindToPort = false" of claim C6 fails.
\<close>

theorem sidecar_http_proxy_binds_to_port:
  "map Listener_Address
     (fst (buildSidecarListenersClusters testHelpers (testMesh\<lparr>ProxyHttpPort := 15002\<rparr>)
             [] [] [] HelloProxyV0 (testStore []))) =
     [''tcp://0.0.0.0:15001'', ''tcp://127.0.0.1:15002''] \<and>
   map Listener_Name
     (fst (buildSidecarListenersClusters testHelpers (testMesh\<lparr>ProxyHttpPort := 15002\<rparr>)
             [] [] [] HelloProxyV0 (testStore []))) =
     [VirtualListenerName, ''http_127.0.0.1_15002''] \<and>
   map BindToPort
     (fst (buildSidecarListenersClusters testHelpers (testMesh\<lparr>ProxyHttpPort := 15002\<rparr>)
             [] [] [] HelloProxyV0 (testStore []))) = [True, True] \<and>
   map UseOriginalDst
     (fst (buildSidecarListenersClusters testHelpers (testMesh\<lparr>ProxyHttpPort := 15002\<rparr>)
             [] [] [] HelloProxyV0 (testStore []))) = [True, False]"
  by (simp add: fixture_defs)

text \<open>
  Claim C7. For a node that is no router and a positive \<^verbatim>\<open>mesh.ProxyListenPort\<close>, the
  listeners that \<^verbatim>\<open>buildSidecarListenersClusters\<close> returns are, sorted by
  \<^verbatim>\<open>normalize\<close>: the inbound and outbound listeners and some of the management
  listeners (\<open>kept\<close>, with their clusters, in their order), all with \<^verbatim>\<open>BindToPort\<close>
  cleared, the virtual listener, and the listener of the HTTP proxy port if there is one. A management listener's address is the address of a kept
  management listener exactly when it is not the address of an inbound or outbound
  listener; when the management listeners have distinct addresses, the kept ones are
  exactly those whose address is not the address of an inbound or outbound listener. The
  clusters returned are those of the inbound and outbound listeners and of the kept
  management listeners. The function returns no error.
\<close>

theorem management_listeners_without_collision:
  fixes h :: "('rule, 'mx, 'ff) helpers" and mesh node instances services managementPorts
    and config :: "'rule IstioConfigStore"
  assumes "Node_Type node \<noteq> Router" and "ProxyListenPort mesh > 0"
  defines "ordered \<equiv> sort_key Hostname services"
  defines "inbound \<equiv> buildInboundListeners h mesh node instances config"
  defines "outbound \<equiv> buildOutboundListeners h mesh node instances ordered config"
  defines "mgmt \<equiv> buildMgmtPortListeners h mesh managementPorts (IPAddress node)"
  defines "result \<equiv> buildSidecarListenersClusters h mesh instances services managementPorts node config"
  shows "\<exists>kept.
     subseq kept (zip (fst mgmt) (snd mgmt)) \<and>
     fst result =
       Listeners_normalize
         (map (\<lambda>listener. listener\<lparr>BindToPort := False\<rparr>)
            (fst inbound @ fst outbound @ map fst kept) @
          [virtualListener mesh] @
          (if ProxyHttpPort mesh > 0 then [httpProxyListener h mesh node instances config] else [])) \<and>
     snd result =
       Clusters_normalize h
         (snd inbound @ snd outbound @ map snd kept @
          (if ProxyHttpPort mesh > 0 then
             HTTPRouteConfigs_clusters h
               (buildEgressHTTPRoutes h mesh node instances config
                  (buildOutboundHTTPRoutes h mesh node instances ordered config))
           else [])) \<and>
     (\<forall>m \<in> set (fst mgmt).
        (Listener_Address m \<in> Listener_Address ` fst ` set kept) =
        (Listener_Address m \<notin> Listener_Address ` set (fst inbound @ fst outbound))) \<and>
     fst ` set kept \<subseteq> set (fst result) \<and>
     (distinct (map Listener_Address (fst mgmt)) \<longrightarrow>
        kept = filter (\<lambda>z. Listener_Address (fst z) \<notin>
                        Listener_Address ` set (fst inbound @ fst outbound))
                 (zip (fst mgmt) (snd mgmt)))"
proof -
  let ?zs = "zip (fst mgmt) (snd mgmt)"
  from appendMgmtListeners_kept [of ?zs "fst inbound @ fst outbound" "snd inbound @ snd outbound"]
  obtain kept where
    k: "appendMgmtListeners ?zs (fst inbound @ fst outbound, snd inbound @ snd outbound) =
          ((fst inbound @ fst outbound) @ map fst kept, (snd inbound @ snd outbound) @ map snd kept)"
       "subseq kept ?zs"
       "\<forall>z \<in> set ?zs. (Listener_Address (fst z) \<in> Listener_Address ` fst ` set kept) =
          (Listener_Address (fst z) \<notin> Listener_Address ` set (fst inbound @ fst outbound))"
    by blast
  have len: "length (fst mgmt) = length (snd mgmt)"
    unfolding mgmt_def by (rule buildMgmtPortListeners_lengths)
  then have left: "fst ` set ?zs = set (fst mgmt)"
    by (metis map_fst_zip set_map)
  have shape: "result =
      (Listeners_normalize
         (map (\<lambda>listener. listener\<lparr>BindToPort := False\<rparr>)
            ((fst inbound @ fst outbound) @ map fst kept) @
          [virtualListener mesh] @
          (if ProxyHttpPort mesh > 0 then [httpProxyListener h mesh node instances config] else [])),
       Clusters_normalize h
         (((snd inbound @ snd outbound) @ map snd kept) @
          (if ProxyHttpPort mesh > 0 then
             HTTPRouteConfigs_clusters h
               (buildEgressHTTPRoutes h mesh node instances config
                  (buildOutboundHTTPRoutes h mesh node instances ordered config))
           else [])))"
    unfolding result_def sidecar_listeners [OF assms(1,2)] Let_def
      ordered_def [symmetric] inbound_def [symmetric] outbound_def [symmetric] mgmt_def [symmetric]
    by (simp only: k(1) fst_conv snd_conv)
  have addr: "\<forall>m \<in> set (fst mgmt).
        (Listener_Address m \<in> Listener_Address ` fst ` set kept) =
        (Listener_Address m \<notin> Listener_Address ` set (fst inbound @ fst outbound))"
  proof
    fix m assume "m \<in> set (fst mgmt)"
    with left have "m \<in> fst ` set ?zs" by simp
    then obtain z where "m = fst z" "z \<in> set ?zs" by (rule imageE)
    with k(3) show "(Listener_Address m \<in> Listener_Address ` fst ` set kept) =
        (Listener_Address m \<notin> Listener_Address ` set (fst inbound @ fst outbound))"
      by blast
  qed
  have keptmgmt: "fst ` set kept \<subseteq> set (fst mgmt)"
    using subseq_subset [OF k(2)] left by blast
  have unbound: "\<forall>m \<in> fst ` set kept. m\<lparr>BindToPort := False\<rparr> = m"
    using keptmgmt buildMgmtPortListeners_flags [of h mesh managementPorts "IPAddress node"]
    unfolding mgmt_def by auto
  have incl: "fst ` set kept \<subseteq> set (fst result)"
  proof
    fix m assume m: "m \<in> fst ` set kept"
    with unbound have "m = m\<lparr>BindToPort := False\<rparr>" by auto
    with m have "m \<in> (\<lambda>listener. listener\<lparr>BindToPort := False\<rparr>) ` fst ` set kept"
      by (metis imageI)
    then show "m \<in> set (fst result)"
      unfolding shape fst_conv set_Listeners_normalize by (auto simp add: image_Un)
  qed
  have exact: "distinct (map Listener_Address (fst mgmt)) \<longrightarrow>
        kept = filter (\<lambda>z. Listener_Address (fst z) \<notin>
                        Listener_Address ` set (fst inbound @ fst outbound)) ?zs"
  proof
    assume "distinct (map Listener_Address (fst mgmt))"
    moreover have "map (\<lambda>z. Listener_Address (fst z)) ?zs =
        map Listener_Address (map fst ?zs)"
      by (simp add: o_def)
    moreover have "map fst ?zs = fst mgmt"
      by (rule map_fst_zip [OF len])
    ultimately have d: "distinct (map (\<lambda>z. Listener_Address (fst z)) ?zs)" by simp
    let ?F = "filter (\<lambda>z. Listener_Address (fst z) \<notin>
                        Listener_Address ` set (fst inbound @ fst outbound)) ?zs"
    from appendMgmtListeners_filter [OF d, of "fst inbound @ fst outbound"
        "fst inbound @ fst outbound" "snd inbound @ snd outbound"] k(1)
    have "map fst kept = map fst ?F" and "map snd kept = map snd ?F" by simp_all
    then show "kept = ?F" by (metis zip_map_fst_snd)
  qed
  from k(2) shape addr incl exact show ?thesis
    by (intro exI [of _ kept]) simp
qed


theorem management_listeners_without_collision_witness:
  "map (\<lambda>l. (Listener_Address l, Listener_Name l))
     (fst (buildSidecarListenersClusters testHelpers testMesh [helloInstanceV0] [HelloService]
             [PortHTTP, \<lparr>Port_Name = ''custom'', Port_Port = 9999, Port_Protocol = ProtocolTCP,
                 Port_AuthenticationPolicy = AuthenticationPolicy_NONE\<rparr>]
             HelloProxyV0 (testStore []))) =
   [(''tcp://0.0.0.0:15001'', VirtualListenerName), (''tcp://0.0.0.0:80'', ''http_0.0.0.0_80''),
    (''tcp://0.0.0.0:81'', ''http_0.0.0.0_81''), (''tcp://10.1.0.0:100'', ''mongo_10.1.0.0_100''),
    (''tcp://10.1.0.0:110'', ''redis_10.1.0.0_110''), (''tcp://10.1.0.0:90'', ''tcp_10.1.0.0_90''),
    (''tcp://10.1.1.0:80'', ''http_10.1.1.0_80''), (''tcp://10.1.1.0:9999'', ''tcp_10.1.1.0_9999'')] \<and>
   map Cluster_Name
     (snd (buildSidecarListenersClusters testHelpers testMesh [helloInstanceV0] [HelloService]
             [PortHTTP, \<lparr>Port_Name = ''custom'', Port_Port = 9999, Port_Protocol = ProtocolTCP,
                 Port_AuthenticationPolicy = AuthenticationPolicy_NONE\<rparr>]
             HelloProxyV0 (testStore []))) =
   [''80'', ''hello.default.svc.cluster.local'', ''hello.default.svc.cluster.local'',
    ''hello.default.svc.cluster.local'', ''9999'']"
  using management_listeners_without_collision [where h = testHelpers and mesh = testMesh
    and node = HelloProxyV0 and instances = "[helloInstanceV0]" and services = "[HelloService]"
    and managementPorts =
      "[PortHTTP, \<lparr>Port_Name = ''custom'', Port_Port = 9999, Port_Protocol = ProtocolTCP,
         Port_AuthenticationPolicy = AuthenticationPolicy_NONE\<rparr>]"
    and config = "testStore []"]
  by (simp add: fixture_defs)

end
